theory Spec2Isabelle
  imports Complex_Main "HOL-Library.Multiset" "HOL-Library.Log_Nat"
begin

section \<open>JavaScript values and builtins used by the components\<close>

text \<open>
  Strings are lists of code units. Text that the user or the backend supplies and that the
  document search reads (filenames, descriptions, the search term) is a list of UTF-16
  code units, \<open>ustring\<close>; the other strings (fixed texts, identifiers, timestamps, the chat
  input) are lists of one-byte code units, \<open>string\<close>, covering U+0000..U+00FF.
  Numbers that the components only compare, add or pass through are
  integers (\<open>size\<close>, time values of dates) or reals (\<open>temperature\<close>, \<open>processing_time\<close>).
  Every request URL is written relative to the \<open>API\<close> prefix of the source
  (\<open>`${BACKEND_URL}/api`\<close>).
\<close>

type_synonym code_unit = int

type_synonym ustring = "code_unit list"

definition str :: "string \<Rightarrow> ustring" where
  \<comment> \<open>the code units of a text written with characters below U+0100\<close>
  "str s = map of_char s"

definition upper_char :: "char \<Rightarrow> char" where
  \<comment> \<open>\<open>toUpperCase\<close> on one code unit whose capital is one code unit below U+0100; the
      three others (U+00B5, U+00DF, U+00FF) are kept: no task type starts with one.\<close>
  "upper_char c =
     (let n = (of_char c :: nat)
      in if (97 \<le> n \<and> n \<le> 122) \<or> (224 \<le> n \<and> n \<le> 254 \<and> n \<noteq> 247)
         then char_of (n - 32) else c)"

definition startsWith :: "'a list \<Rightarrow> 'a list \<Rightarrow> bool" where
  "startsWith s t = (take (length t) s = t)"

fun includes_str :: "'a list \<Rightarrow> 'a list \<Rightarrow> bool" where
  \<comment> \<open>\<open>s.includes(t)\<close>: \<open>t\<close> occurs in \<open>s\<close> at some position.\<close>
  "includes_str [] t = (t = [])"
| "includes_str (c # s) t = (startsWith (c # s) t \<or> includes_str s t)"

text \<open>
  \<open>String.prototype.toLowerCase\<close> is a builtin: the Unicode default case conversion, with
  the one context-sensitive rule of SpecialCasing (\<open>Final_Sigma\<close>). The search takes it as
  a parameter. \<open>String_toLowerCase\<close> is the builtin on the code units U+0000..U+00FF and
  the Greek letters U+0391..U+03A9 and U+03B1..U+03C9: there every capital has the simple
  mapping 32 code units up, and the capital sigma U+03A3 becomes the final sigma U+03C2
  instead of U+03C3 when a cased letter precedes it and none follows it, case-ignorable
  characters in between not counting. Other code units are kept and count as uncased.
\<close>

definition lower_unit :: "code_unit \<Rightarrow> code_unit" where
  \<comment> \<open>the simple lowercase mapping: A-Z, the Latin-1 capitals (U+00D7 is the multiplication
      sign) and the Greek capitals (U+03A2 is unassigned)\<close>
  "lower_unit c =
     (if (65 \<le> c \<and> c \<le> 90) \<or> (192 \<le> c \<and> c \<le> 222 \<and> c \<noteq> 215) \<or>
         (913 \<le> c \<and> c \<le> 937 \<and> c \<noteq> 930)
      then c + 32 else c)"

definition is_cased :: "code_unit \<Rightarrow> bool" where
  \<comment> \<open>the property Cased: letters with a case, the ordinal indicators and the micro sign
      included\<close>
  "is_cased c =
     ((65 \<le> c \<and> c \<le> 90) \<or> (97 \<le> c \<and> c \<le> 122) \<or> c = 170 \<or> c = 181 \<or> c = 186 \<or>
      (192 \<le> c \<and> c \<le> 214) \<or> (216 \<le> c \<and> c \<le> 246) \<or> (248 \<le> c \<and> c \<le> 255) \<or>
      (913 \<le> c \<and> c \<le> 929) \<or> (931 \<le> c \<and> c \<le> 937) \<or> (945 \<le> c \<and> c \<le> 969))"

definition is_case_ignorable :: "code_unit \<Rightarrow> bool" where
  \<comment> \<open>the property Case_Ignorable: apostrophe, full stop, colon, circumflex, grave, diaeresis,
      soft hyphen, macron, acute, middle dot, cedilla\<close>
  "is_case_ignorable c = (c \<in> {39, 46, 58, 94, 96, 168, 173, 175, 180, 183, 184})"

fun cased_next :: "ustring \<Rightarrow> bool" where
  \<comment> \<open>the text starts with case-ignorable characters, any number, and then a cased letter\<close>
  "cased_next [] = False"
| "cased_next (c # cs) = (is_cased c \<or> (is_case_ignorable c \<and> cased_next cs))"

fun lower_from :: "ustring \<Rightarrow> ustring \<Rightarrow> ustring" where
  \<comment> \<open>\<open>lower_from before rest\<close>: the lowercase of \<open>rest\<close>, which stands after the code units
      \<open>before\<close> (the nearest first)\<close>
  "lower_from before [] = []"
| "lower_from before (c # cs) =
     (if c = 931 \<and> cased_next before \<and> \<not> cased_next cs then 962 else lower_unit c) #
     lower_from (c # before) cs"

definition String_toLowerCase :: "ustring \<Rightarrow> ustring" where
  "String_toLowerCase s = lower_from [] s"

definition is_white_space :: "char \<Rightarrow> bool" where
  \<comment> \<open>WhiteSpace and LineTerminator code units below U+0100: TAB, LF, VT, FF, CR, SP, NBSP.\<close>
  "is_white_space c = ((of_char c :: nat) \<in> {9, 10, 11, 12, 13, 32, 160})"

definition trim :: "string \<Rightarrow> string" where
  "trim s = rev (dropWhile is_white_space (rev (dropWhile is_white_space s)))"

definition capitalize :: "string \<Rightarrow> string" where
  \<comment> \<open>\<open>s.charAt(0).toUpperCase() + s.slice(1)\<close>\<close>
  "capitalize s = map upper_char (take 1 s) @ drop 1 s"

fun insert_sorted :: "('a \<Rightarrow> 'a \<Rightarrow> int) \<Rightarrow> 'a \<Rightarrow> 'a list \<Rightarrow> 'a list" where
  "insert_sorted cmp x [] = [x]"
| "insert_sorted cmp x (y # ys) =
     (if cmp x y \<le> 0 then x # y # ys else y # insert_sorted cmp x ys)"

definition sort_js :: "('a \<Rightarrow> 'a \<Rightarrow> int) \<Rightarrow> 'a list \<Rightarrow> 'a list" where
  \<comment> \<open>\<open>Array.prototype.sort(comparefn)\<close> is a builtin: ECMAScript requires a stable sort,
      which for a consistent comparator has one possible result. The model computes it
      by stable insertion.\<close>
  "sort_js cmp xs = foldr (insert_sorted cmp) xs []"

definition consistent_comparator :: "('a \<Rightarrow> 'a \<Rightarrow> int) \<Rightarrow> bool" where
  \<comment> \<open>What ECMAScript asks of a comparator (and guarantees of \<open>localeCompare\<close>): the
      relation "not after" is total and transitive.\<close>
  "consistent_comparator cmp =
     ((\<forall>a b. 0 < cmp a b \<longrightarrow> cmp b a \<le> 0) \<and>
      (\<forall>a b c. cmp a b \<le> 0 \<and> cmp b c \<le> 0 \<longrightarrow> cmp a c \<le> 0))"

fun compareCodeUnits :: "ustring \<Rightarrow> ustring \<Rightarrow> int" where
  \<comment> \<open>One admissible \<open>localeCompare\<close>: code unit order, the shorter string first.\<close>
  "compareCodeUnits [] [] = 0"
| "compareCodeUnits [] (y # ys) = - 1"
| "compareCodeUnits (x # xs) [] = 1"
| "compareCodeUnits (x # xs) (y # ys) =
     (if x < y then - 1 else if y < x then 1 else compareCodeUnits xs ys)"

section \<open>HTTP outcomes and the effects of a handler\<close>

text \<open>
  An asynchronous handler is a function of the state at the call and of what its requests
  return: \<open>Inl\<close> an error (the promise rejects), \<open>Inr\<close> the response data. It returns the
  state after its updates and the effects it performed, in order.
\<close>

record http_error =
  detail :: "string option"  \<comment> \<open>\<open>error.response?.data?.detail\<close>\<close>
  message :: string  \<comment> \<open>\<open>error.message\<close>\<close>

definition error_text :: "http_error \<Rightarrow> string" where
  \<comment> \<open>\<open>error.response?.data?.detail || error.message\<close>: an empty detail is falsy\<close>
  "error_text error =
     (case detail error of
        None \<Rightarrow> message error
      | Some d \<Rightarrow> if d = [] then message error else d)"

record document =
  doc_id :: string
  filename :: ustring
  description :: "ustring option"
  doc_size :: int
  page_count :: int
  upload_date :: int
    \<comment> \<open>the time value of \<open>new Date(doc.upload_date)\<close>, in ms: the backend sends a date, and
        a string that \<open>Date\<close> cannot parse (NaN in the comparator) is outside the model\<close>

record provider =
  provider_name :: string
  available_models :: "string list"

record upload_file =
  file_name :: string
  file_type :: string
  file_size :: nat

record ai_task_request =
  document_id :: string
  task_type :: string
  additional_instructions :: "string option"  \<comment> \<open>\<open>undefined\<close> is left out of the JSON body\<close>
  model_provider :: string
  model_name :: string

record ai_task_response =
  result :: string
  processing_time :: real

record request_message =
  req_role :: string
  req_content :: string
  req_timestamp :: string

record chat_request =
  req_messages :: "request_message list"
  req_model_provider :: string
  req_model_name :: string
  req_temperature :: real
  req_document_id :: "string option"  \<comment> \<open>set only when a document is selected\<close>

record chat_response =
  message_content :: string
  message_timestamp :: string
  response_model_used :: string
  response_processing_time :: real

record result_page =
  page_title :: string
  page_heading :: string
  page_document :: ustring
  page_result :: string
  page_footer :: string

datatype effect =
    HttpGet string
  | HttpGetBlob string
  | HttpDelete string
  | HttpPostForm string upload_file
  | HttpPostTask string ai_task_request
  | HttpPostChat string chat_request
  | ToastSuccess string
  | ToastError string
  | ConsoleError string
  | WindowConfirm string
  | WindowOpen string
  | DocumentWrite result_page
  | SaveLink string
  | FocusInput

fun is_request :: "effect \<Rightarrow> bool" where
  "is_request (HttpGet u) = True"
| "is_request (HttpGetBlob u) = True"
| "is_request (HttpDelete u) = True"
| "is_request (HttpPostForm u f) = True"
| "is_request (HttpPostTask u r) = True"
| "is_request (HttpPostChat u r) = True"
| "is_request e = False"

fun is_error_toast :: "effect \<Rightarrow> bool" where
  "is_error_toast (ToastError m) = True"
| "is_error_toast e = False"

section \<open>Number formatting: \<open>toFixed(2)\<close> and \<open>formatBytes\<close>\<close>

definition digit_char :: "int \<Rightarrow> char" where
  "digit_char d = char_of (48 + d)"

function decimal :: "int \<Rightarrow> string" where
  \<comment> \<open>the decimal digits of a non-negative integer\<close>
  "decimal n = (if n < 10 then [digit_char n] else decimal (n div 10) @ [digit_char (n mod 10)])"
  by pat_completeness auto
termination
  by (relation "measure nat") auto

definition toFixed2_units :: "real \<Rightarrow> int" where
  \<comment> \<open>\<open>Number.prototype.toFixed(2)\<close> on \<open>x \<ge> 0\<close>: the integer \<open>n\<close> with \<open>n / 100\<close> closest to
      \<open>x\<close>, the larger one on a tie.\<close>
  "toFixed2_units x = \<lfloor>x * 100 + 1 / 2\<rfloor>"

definition toFixed2 :: "real \<Rightarrow> string" where
  \<comment> \<open>the digits \<open>toFixed(2)\<close> prints (below 10^21): sign, integer part, two decimals\<close>
  "toFixed2 x =
     (let n = toFixed2_units \<bar>x\<bar>
      in (if x < 0 then ''-'' else []) @ decimal (n div 100) @ ''.'' @
         [digit_char (n mod 100 div 10), digit_char (n mod 10)])"

definition hundredths_to_string :: "int \<Rightarrow> string" where
  \<comment> \<open>\<open>parseFloat(s) + ' '\<close> for the \<open>toFixed(2)\<close> digits \<open>s\<close> of \<open>n / 100\<close>: the number printed
      again, which drops the trailing zeros of the fraction\<close>
  "hundredths_to_string n =
     decimal (n div 100) @
     (if n mod 100 = 0 then []
      else ''.'' @ [digit_char (n mod 100 div 10)] @
           (if n mod 10 = 0 then [] else [digit_char (n mod 10)]))"

function floor_log :: "int \<Rightarrow> int \<Rightarrow> nat" where
  \<comment> \<open>the integer part of the logarithm of \<open>n \<ge> 1\<close> to the base \<open>k\<close>\<close>
  "floor_log k n = (if k \<le> 1 \<or> n < k then 0 else Suc (floor_log k (n div k)))"
  by pat_completeness auto
termination
  by (relation "measure (\<lambda>(k, n). nat n)") (auto intro: int_div_less_self)

declare floor_log.simps [simp del]

declare decimal.simps [simp del]

definition Math_floor_log_ratio :: "int \<Rightarrow> int \<Rightarrow> nat option" where
  \<comment> \<open>\<open>Math.floor(Math.log(bytes) / Math.log(k))\<close> for \<open>bytes \<noteq> 0\<close>, over the reals: \<open>None\<close>
      is NaN, the logarithm of a negative number.\<close>
  "Math_floor_log_ratio bytes k = (if bytes < 0 then None else Some (floor_log k bytes))"

definition array_get :: "string list \<Rightarrow> nat \<Rightarrow> string" where
  \<comment> \<open>\<open>' ' + sizes[i]\<close>: an index past the array reads \<open>undefined\<close>\<close>
  "array_get sizes i = (if i < length sizes then sizes ! i else ''undefined'')"

definition formatBytes :: "int \<Rightarrow> string" where
  \<comment> \<open>the same function in DocumentManager, Dashboard and AIChat\<close>
  "formatBytes bytes =
     (if bytes = 0 then ''0 Bytes''
      else
        let k = 1024;
            sizes = [''Bytes'', ''KB'', ''MB'', ''GB'']
        in case Math_floor_log_ratio bytes k of
             None \<Rightarrow> ''NaN'' @ '' '' @ ''undefined''
           | Some i \<Rightarrow>
               hundredths_to_string
                 (toFixed2_units (real_of_int bytes / real_of_int k ^ i)) @
               '' '' @ array_get sizes i)"

section \<open>DocumentManager.js\<close>

record dm_state =
  documents :: "document list"
  loading :: bool
  uploading :: bool
  searchTerm :: ustring
  selectedDocument :: "document option"
  viewMode :: string
  sortBy :: string
  aiProviders :: "provider list"
  aiTaskDialogOpen :: bool
  aiTaskType :: string
  aiTaskInstructions :: string
  aiTaskProvider :: string
  aiTaskModel :: string
  aiTaskLoading :: bool

definition DocumentManager_initial :: dm_state where
  \<comment> \<open>the \<open>useState\<close> initial values\<close>
  "DocumentManager_initial =
     \<lparr>documents = [], loading = True, uploading = False, searchTerm = [],
      selectedDocument = None, viewMode = ''grid'', sortBy = ''upload_date'',
      aiProviders = [], aiTaskDialogOpen = False, aiTaskType = ''summarize'',
      aiTaskInstructions = [], aiTaskProvider = ''openai'', aiTaskModel = ''gpt-4o-mini'',
      aiTaskLoading = False\<rparr>"

record dropzone_options =
  accept :: "(string \<times> string list) list"
  multiple :: bool
  maxSize :: "nat option"  \<comment> \<open>react-dropzone's size limit; \<open>None\<close> when the option is not given\<close>

definition dropzoneOptions :: dropzone_options where
  \<comment> \<open>the options passed to \<open>useDropzone\<close>, beside \<open>onDrop\<close>\<close>
  "dropzoneOptions =
     \<lparr>accept = [(''application/pdf'', [''.pdf''])], multiple = False, maxSize = None\<rparr>"

definition uploadCaption :: string where
  "uploadCaption = ''Supported format: PDF (Max size: 50MB)''"

definition fetchDocuments ::
  "http_error + document list \<Rightarrow> dm_state \<Rightarrow> dm_state \<times> effect list" where
  "fetchDocuments response st =
     (case response of
        Inr data \<Rightarrow>
          (st\<lparr>documents := data, loading := False\<rparr>, [HttpGet ''/documents''])
      | Inl error \<Rightarrow>
          (st\<lparr>loading := False\<rparr>,
           [HttpGet ''/documents'', ConsoleError ''Failed to fetch documents:'',
            ToastError ''Failed to load documents'']))"

definition fetchAiProviders ::
  "http_error + provider list \<Rightarrow> dm_state \<Rightarrow> dm_state \<times> effect list" where
  "fetchAiProviders response st =
     (case response of
        Inr data \<Rightarrow> (st\<lparr>aiProviders := data\<rparr>, [HttpGet ''/ai/providers''])
      | Inl error \<Rightarrow>
          (st, [HttpGet ''/ai/providers'', ConsoleError ''Failed to fetch AI providers:'']))"

definition onDrop ::
  "upload_file list \<Rightarrow> http_error + unit \<Rightarrow> http_error + document list \<Rightarrow> dm_state \<Rightarrow>
     dm_state \<times> effect list" where
  \<comment> \<open>\<open>fetchResponse\<close> answers the \<open>fetchDocuments()\<close> started after a successful upload\<close>
  "onDrop acceptedFiles uploadResponse fetchResponse st =
     (case acceptedFiles of
        [] \<Rightarrow> (st, [])
      | file # rest \<Rightarrow>
          if file_type file \<noteq> ''application/pdf''
          then (st, [ToastError ''Only PDF files are supported''])
          else
            (case uploadResponse of
               Inr response \<Rightarrow>
                 (let (st', effects) = fetchDocuments fetchResponse (st\<lparr>uploading := True\<rparr>)
                  in (st'\<lparr>uploading := False\<rparr>,
                      [HttpPostForm ''/documents/upload'' file,
                       ToastSuccess (''Successfully uploaded '' @ file_name file)] @ effects))
             | Inl error \<Rightarrow>
                 (st\<lparr>uploading := False\<rparr>,
                  [HttpPostForm ''/documents/upload'' file, ConsoleError ''Upload error:'',
                   ToastError (''Upload failed: '' @ error_text error)])))"

definition downloadDocument ::
  "string \<Rightarrow> string \<Rightarrow> http_error + unit \<Rightarrow> effect list" where
  "downloadDocument docId name response =
     (case response of
        Inr blob \<Rightarrow>
          [HttpGetBlob (''/documents/'' @ docId @ ''/download''), SaveLink name,
           ToastSuccess ''Download started'']
      | Inl error \<Rightarrow>
          [HttpGetBlob (''/documents/'' @ docId @ ''/download''), ConsoleError ''Download error:'',
           ToastError ''Download failed''])"

definition deleteDocument ::
  "string \<Rightarrow> string \<Rightarrow> bool \<Rightarrow> http_error + unit \<Rightarrow> http_error + document list \<Rightarrow>
     dm_state \<Rightarrow> dm_state \<times> effect list" where
  \<comment> \<open>\<open>confirmed\<close> is the answer of \<open>window.confirm\<close>\<close>
  "deleteDocument docId name confirmed response fetchResponse st =
     (let ask = WindowConfirm (''Are you sure you want to delete \"'' @ name @ ''\"?'')
      in if \<not> confirmed then (st, [ask])
         else
           (case response of
              Inr ok \<Rightarrow>
                (let (st', effects) = fetchDocuments fetchResponse st
                 in (st', [ask, HttpDelete (''/documents/'' @ docId),
                           ToastSuccess ''Document deleted successfully''] @ effects))
            | Inl error \<Rightarrow>
                (st, [ask, HttpDelete (''/documents/'' @ docId), ConsoleError ''Delete error:'',
                      ToastError ''Failed to delete document''])))"

definition aiTaskTypeOptions :: "string list" where
  \<comment> \<open>the values of the task type selector's items\<close>
  "aiTaskTypeOptions =
     [''summarize'', ''extract_key_points'', ''rewrite'', ''analyze'', ''translate'',
      ''compress_suggestions'']"

definition aiTaskRequest :: "document \<Rightarrow> dm_state \<Rightarrow> ai_task_request" where
  "aiTaskRequest doc st =
     \<lparr>document_id = doc_id doc,
      task_type = aiTaskType st,
      additional_instructions =
        (if aiTaskInstructions st = [] then None else Some (aiTaskInstructions st)),
      model_provider = aiTaskProvider st,
      model_name = aiTaskModel st\<rparr>"

definition resultPage :: "document \<Rightarrow> dm_state \<Rightarrow> ai_task_response \<Rightarrow> result_page" where
  \<comment> \<open>the parts of the HTML written to the result window\<close>
  "resultPage doc st data =
     \<lparr>page_title = ''AI Task Result'',
      page_heading = capitalize (aiTaskType st) @ '' Result'',
      page_document = str ''Document: '' @ filename doc,
      page_result = result data,
      page_footer = ''Processing time: '' @ toFixed2 (processing_time data) @ ''s''\<rparr>"

definition null_window_message :: string where
  \<comment> \<open>\<open>error.message\<close> of the TypeError that \<open>resultWindow.document\<close> throws on \<open>null\<close>\<close>
  "null_window_message = ''Cannot read properties of null (reading 'document')''"

definition performAiTask ::
  "http_error + ai_task_response \<Rightarrow> bool \<Rightarrow> dm_state \<Rightarrow> dm_state \<times> effect list" where
  \<comment> \<open>\<open>popup\<close>: \<open>window.open\<close> returned a window; on \<open>null\<close> the write throws inside
      the \<open>try\<close>\<close>
  "performAiTask response popup st =
     (case selectedDocument st of
        None \<Rightarrow> (st, [])
      | Some doc \<Rightarrow>
          (let post = HttpPostTask ''/ai/tasks'' (aiTaskRequest doc st)
           in case response of
                Inr data \<Rightarrow>
                  if popup
                  then (st\<lparr>aiTaskDialogOpen := False, aiTaskInstructions := [],
                           aiTaskLoading := False\<rparr>,
                        [post, ToastSuccess (aiTaskType st @ '' completed successfully!''),
                         WindowOpen ''_blank'', DocumentWrite (resultPage doc st data)])
                  else (st\<lparr>aiTaskLoading := False\<rparr>,
                        [post, ToastSuccess (aiTaskType st @ '' completed successfully!''),
                         WindowOpen ''_blank'', ConsoleError ''AI task error:'',
                         ToastError (''AI task failed: '' @ null_window_message)])
              | Inl error \<Rightarrow>
                  (st\<lparr>aiTaskLoading := False\<rparr>,
                   [post, ConsoleError ''AI task error:'',
                    ToastError (''AI task failed: '' @ error_text error)])))"

definition matchesSearch :: "(ustring \<Rightarrow> ustring) \<Rightarrow> ustring \<Rightarrow> document \<Rightarrow> bool" where
  \<comment> \<open>the predicate of \<open>documents.filter\<close>; \<open>toLowerCase\<close> is the platform's builtin;
      \<open>description?.\<close> is falsy on a missing description\<close>
  "matchesSearch toLowerCase term doc =
     (includes_str (toLowerCase (filename doc)) (toLowerCase term) \<or>
      (case description doc of
         None \<Rightarrow> False
       | Some d \<Rightarrow> includes_str (toLowerCase d) (toLowerCase term)))"

definition compareDocuments ::
  "(ustring \<Rightarrow> ustring \<Rightarrow> int) \<Rightarrow> string \<Rightarrow> document \<Rightarrow> document \<Rightarrow> int" where
  \<comment> \<open>the comparator of \<open>.sort\<close>; \<open>localeCompare\<close> is the platform's collation\<close>
  "compareDocuments localeCompare key a b =
     (if key = ''filename'' then localeCompare (filename a) (filename b)
      else if key = ''size'' then doc_size b - doc_size a
      else upload_date b - upload_date a)"

definition filteredDocuments ::
  "(ustring \<Rightarrow> ustring \<Rightarrow> int) \<Rightarrow> (ustring \<Rightarrow> ustring) \<Rightarrow> dm_state \<Rightarrow> document list" where
  "filteredDocuments localeCompare toLowerCase st =
     sort_js (compareDocuments localeCompare (sortBy st))
       (filter (matchesSearch toLowerCase (searchTerm st)) (documents st))"

definition sortByOptions :: "string list" where
  \<comment> \<open>the values of the sort selector's items\<close>
  "sortByOptions = [''upload_date'', ''filename'', ''size'']"





definition example_documents :: "document list" where
  "example_documents =
     [\<lparr>doc_id = ''1'', filename = str ''Report.pdf'', description = None,
        doc_size = 2048, page_count = 3, upload_date = 1000\<rparr>,
      \<lparr>doc_id = ''2'', filename = str ''notes.pdf'', description = Some (str ''Meeting NOTES''),
        doc_size = 512, page_count = 1, upload_date = 3000\<rparr>,
      \<lparr>doc_id = ''3'', filename = str ''Invoice.pdf'', description = Some [],
        doc_size = 4096, page_count = 2, upload_date = 2000\<rparr>]"


section \<open>Dashboard (App.js)\<close>

record stats =
  totalDocuments :: int
  totalChats :: int
  aiTasks :: int
  storageUsed :: int

record dashboard_state =
  dashboard_stats :: stats
  recentDocuments :: "document list"
  dashboard_loading :: bool

definition Dashboard_initial :: dashboard_state where
  "Dashboard_initial =
     \<lparr>dashboard_stats = \<lparr>totalDocuments = 0, totalChats = 0, aiTasks = 0, storageUsed = 0\<rparr>,
      recentDocuments = [], dashboard_loading = True\<rparr>"

definition fetchDashboardData ::
  "real \<Rightarrow> real \<Rightarrow> http_error + document list \<Rightarrow> dashboard_state \<Rightarrow>
     dashboard_state \<times> effect list" where
  \<comment> \<open>\<open>random1\<close>, \<open>random2\<close>: the two values \<open>Math.random()\<close> returns\<close>
  "fetchDashboardData random1 random2 docsResponse st =
     (case docsResponse of
        Inr docs \<Rightarrow>
          (st\<lparr>dashboard_stats :=
                \<lparr>totalDocuments = int (length docs),
                 totalChats = \<lfloor>random1 * 50\<rfloor>,
                 aiTasks = \<lfloor>random2 * 100\<rfloor>,
                 storageUsed = foldl (\<lambda>total doc. total + doc_size doc) 0 docs\<rparr>,
              recentDocuments := take 5 docs,
              dashboard_loading := False\<rparr>,
           [HttpGet ''/documents''])
      | Inl error \<Rightarrow>
          (st\<lparr>dashboard_loading := False\<rparr>,
           [HttpGet ''/documents'', ConsoleError ''Failed to fetch dashboard data:'',
            ToastError ''Failed to load dashboard data'']))"

definition Dashboard_mount ::
  "real \<Rightarrow> real \<Rightarrow> http_error + document list \<Rightarrow> dashboard_state \<times> effect list" where
  \<comment> \<open>\<open>useEffect(() => { fetchDashboardData(); }, [])\<close>: runs once, after the first render\<close>
  "Dashboard_mount random1 random2 docsResponse =
     fetchDashboardData random1 random2 docsResponse Dashboard_initial"

datatype card_value = NumberValue int | StringValue string

definition statsCards :: "dashboard_state \<Rightarrow> (string \<times> card_value) list" where
  \<comment> \<open>the four \<open>StatsCard\<close>s: title and value (\<open>isString\<close> only for the last)\<close>
  "statsCards st =
     [(''Total Documents'', NumberValue (totalDocuments (dashboard_stats st))),
      (''AI Conversations'', NumberValue (totalChats (dashboard_stats st))),
      (''AI Tasks Completed'', NumberValue (aiTasks (dashboard_stats st))),
      (''Storage Used'', StringValue (formatBytes (storageUsed (dashboard_stats st))))]"

definition recentDocumentsCard :: "dashboard_state \<Rightarrow> document list option" where
  \<comment> \<open>the "Recent Documents" card, rendered when \<open>recentDocuments.length > 0\<close>\<close>
  "recentDocumentsCard st =
     (if length (recentDocuments st) > 0 then Some (recentDocuments st) else None)"

section \<open>Theme (App.js)\<close>

type_synonym local_storage = "string \<Rightarrow> string option"

record app_state =
  darkMode :: bool
  sidebarOpen :: bool
  htmlDarkClass :: bool  \<comment> \<open>\<open>document.documentElement.classList\<close> contains \<open>dark\<close>\<close>

definition App_initial :: app_state where
  "App_initial = \<lparr>darkMode = False, sidebarOpen = True, htmlDarkClass = False\<rparr>"

definition falsy :: "string option \<Rightarrow> bool" where
  \<comment> \<open>\<open>!v\<close> for \<open>v\<close> a string or \<open>null\<close>\<close>
  "falsy v = (v = None \<or> v = Some [])"

definition App_mount :: "bool \<Rightarrow> local_storage \<Rightarrow> app_state" where
  \<comment> \<open>the state after the mount effect; \<open>prefersDark\<close> is
      \<open>window.matchMedia('(prefers-color-scheme: dark)').matches\<close>\<close>
  "App_mount prefersDark storage =
     (let savedTheme = storage ''pdflux-theme''
      in if savedTheme = Some ''dark'' \<or> (falsy savedTheme \<and> prefersDark)
         then App_initial\<lparr>darkMode := True, htmlDarkClass := True\<rparr>
         else App_initial)"

definition toggleDarkMode :: "app_state \<times> local_storage \<Rightarrow> app_state \<times> local_storage" where
  "toggleDarkMode = (\<lambda>(st, storage).
     if \<not> darkMode st
     then (st\<lparr>darkMode := \<not> darkMode st, htmlDarkClass := True\<rparr>,
           storage(''pdflux-theme'' \<mapsto> ''dark''))
     else (st\<lparr>darkMode := \<not> darkMode st, htmlDarkClass := False\<rparr>,
           storage(''pdflux-theme'' \<mapsto> ''light'')))"

section \<open>AIChat.js\<close>

record chat_message =
  role :: string
  content :: string
  timestamp :: string
  model_used :: "string option"
  message_processing_time :: "real option"
  isError :: bool  \<comment> \<open>\<open>False\<close> when the property is absent\<close>

record chat_state =
  messages :: "chat_message list"
  inputMessage :: string
  isLoading :: bool
  chat_selectedDocument :: "document option"
  chat_documents :: "document list"
  chat_aiProviders :: "provider list"
  currentProvider :: string
  currentModel :: string
  temperature :: real
  settingsOpen :: bool
  documentSelectorOpen :: bool

definition AIChat_initial :: chat_state where
  "AIChat_initial =
     \<lparr>messages = [], inputMessage = [], isLoading = False, chat_selectedDocument = None,
      chat_documents = [], chat_aiProviders = [], currentProvider = ''openai'',
      currentModel = ''gpt-4o-mini'', temperature = 7 / 10, settingsOpen = False,
      documentSelectorOpen = False\<rparr>"

definition newline :: string where
  "newline = [CHR 0x0A]"

definition welcome_content :: string where
  \<comment> \<open>the template literal of \<open>welcomeMessage\<close>; its pictographs and bullets lie outside
      the modelled code units and are left out\<close>
  "welcome_content =
     ''Welcome to PDFLux AI Chat! '' @ newline @ newline @
     ''I'm your AI assistant specialized in PDF document analysis and management. '' @
     ''Here's what I can help you with:'' @ newline @ newline @
     '' **Document Analysis**'' @ newline @
     '' Summarize documents'' @ newline @
     '' Extract key information'' @ newline @
     '' Answer questions about content'' @ newline @
     '' Compare documents'' @ newline @ newline @
     '' **PDF Operations**'' @ newline @
     '' Suggest optimizations'' @ newline @
     '' Recommend compression strategies'' @ newline @
     '' Security and permissions advice'' @ newline @ newline @
     '' **Smart Assistance**'' @ newline @
     '' Explain complex content'' @ newline @
     '' Translate text'' @ newline @
     '' Rewrite for clarity'' @ newline @ newline @
     ''Select a document from the sidebar to chat about it, or ask me general questions '' @
     ''about PDF management!''"

definition welcomeMessage :: "string \<Rightarrow> chat_message" where
  \<comment> \<open>\<open>now\<close> is \<open>new Date().toISOString()\<close>\<close>
  "welcomeMessage now =
     \<lparr>role = ''assistant'', content = welcome_content, timestamp = now,
      model_used = None, message_processing_time = None, isError = False\<rparr>"

definition initializeChat :: "string \<Rightarrow> chat_state \<Rightarrow> chat_state" where
  "initializeChat now st = st\<lparr>messages := [welcomeMessage now]\<rparr>"

definition chat_fetchDocuments ::
  "http_error + document list \<Rightarrow> chat_state \<Rightarrow> chat_state \<times> effect list" where
  "chat_fetchDocuments response st =
     (case response of
        Inr data \<Rightarrow> (st\<lparr>chat_documents := data\<rparr>, [HttpGet ''/documents''])
      | Inl error \<Rightarrow>
          (st, [HttpGet ''/documents'', ConsoleError ''Failed to fetch documents:'',
                ToastError ''Failed to load documents'']))"

definition chat_fetchAiProviders ::
  "http_error + provider list \<Rightarrow> chat_state \<Rightarrow> chat_state \<times> effect list" where
  "chat_fetchAiProviders response st =
     (case response of
        Inr data \<Rightarrow> (st\<lparr>chat_aiProviders := data\<rparr>, [HttpGet ''/ai/providers''])
      | Inl error \<Rightarrow>
          (st, [HttpGet ''/ai/providers'', ConsoleError ''Failed to fetch AI providers:'']))"

definition AIChat_mount :: "string \<Rightarrow> chat_state" where
  \<comment> \<open>the mount effect starts both fetches and calls \<open>initializeChat\<close>; the fetches' answers
      arrive later\<close>
  "AIChat_mount now = initializeChat now AIChat_initial"

definition userMessage :: "string \<Rightarrow> chat_state \<Rightarrow> chat_message" where
  "userMessage now st =
     \<lparr>role = ''user'', content = trim (inputMessage st), timestamp = now,
      model_used = None, message_processing_time = None, isError = False\<rparr>"

definition request_of :: "chat_message \<Rightarrow> request_message" where
  \<comment> \<open>\<open>msg => ({ role: msg.role, content: msg.content, timestamp: msg.timestamp })\<close>\<close>
  "request_of msg =
     \<lparr>req_role = role msg, req_content = content msg, req_timestamp = timestamp msg\<rparr>"

definition chatRequest :: "chat_message list \<Rightarrow> chat_state \<Rightarrow> chat_request" where
  "chatRequest newMessages st =
     \<lparr>req_messages = map request_of newMessages,
      req_model_provider = currentProvider st,
      req_model_name = currentModel st,
      req_temperature = temperature st,
      req_document_id =
        (case chat_selectedDocument st of None \<Rightarrow> None | Some doc \<Rightarrow> Some (doc_id doc))\<rparr>"

definition assistantMessage :: "chat_response \<Rightarrow> chat_message" where
  "assistantMessage data =
     \<lparr>role = ''assistant'', content = message_content data,
      timestamp = message_timestamp data,
      model_used = Some (response_model_used data),
      message_processing_time = Some (response_processing_time data),
      isError = False\<rparr>"

definition errorMessage :: "http_error \<Rightarrow> string \<Rightarrow> chat_message" where
  "errorMessage error now =
     \<lparr>role = ''assistant'',
      content = ''Sorry, I encountered an error: '' @ error_text error @
                ''. Please try again or check your settings.'',
      timestamp = now, model_used = None, message_processing_time = None, isError = True\<rparr>"

definition sendMessage_begin :: "string \<Rightarrow> chat_state \<Rightarrow> (chat_state \<times> effect list) option" where
  \<comment> \<open>\<open>sendMessage\<close> up to its \<open>await\<close>: \<open>None\<close> when the guard returns\<close>
  "sendMessage_begin now st =
     (if trim (inputMessage st) = [] \<or> isLoading st then None
      else
        let newMessages = messages st @ [userMessage now st]
        in Some (st\<lparr>messages := newMessages, inputMessage := [], isLoading := True\<rparr>,
                 [HttpPostChat ''/ai/chat'' (chatRequest newMessages st)]))"

definition sendMessage_settle ::
  "http_error + chat_response \<Rightarrow> string \<Rightarrow> chat_state \<Rightarrow> chat_state \<times> effect list" where
  \<comment> \<open>\<open>sendMessage\<close> after its \<open>await\<close>, on the state of that moment
      (\<open>setMessages(prev => [...prev, m])\<close>)\<close>
  "sendMessage_settle response now st =
     (case response of
        Inr data \<Rightarrow>
          (st\<lparr>messages := messages st @ [assistantMessage data], isLoading := False\<rparr>,
           [FocusInput])
      | Inl error \<Rightarrow>
          (st\<lparr>messages := messages st @ [errorMessage error now], isLoading := False\<rparr>,
           [ConsoleError ''Chat error:'', ToastError ''Chat request failed'', FocusInput]))"

definition clearChat :: "bool \<Rightarrow> string \<Rightarrow> chat_state \<Rightarrow> chat_state \<times> effect list" where
  \<comment> \<open>\<open>confirmed\<close> is the answer of \<open>window.confirm\<close>\<close>
  "clearChat confirmed now st =
     (if length (messages st) \<le> 1 then (st, [])
      else
        let ask = WindowConfirm ''Are you sure you want to clear the chat history?''
        in if confirmed
           then ((initializeChat now st)\<lparr>chat_selectedDocument := None\<rparr>,
                 [ask, ToastSuccess ''Chat cleared''])
           else (st, [ask]))"

datatype chat_event =
    DocumentsFetched "http_error + document list"
  | ProvidersFetched "http_error + provider list"
  | SetInputMessage string
  | SetSelectedDocument "document option"
  | SetCurrentProvider string
  | SetCurrentModel string
  | SetTemperature real
  | SetSettingsOpen bool
  | SendMessage string
  | ChatResponse "http_error + chat_response" string
  | ClearChat bool string

fun chat_step :: "chat_state \<Rightarrow> chat_event \<Rightarrow> chat_state" where
  "chat_step st (DocumentsFetched response) = fst (chat_fetchDocuments response st)"
| "chat_step st (ProvidersFetched response) = fst (chat_fetchAiProviders response st)"
| "chat_step st (SetInputMessage v) = st\<lparr>inputMessage := v\<rparr>"
| "chat_step st (SetSelectedDocument d) = st\<lparr>chat_selectedDocument := d\<rparr>"
| "chat_step st (SetCurrentProvider v) = st\<lparr>currentProvider := v\<rparr>"
| "chat_step st (SetCurrentModel v) = st\<lparr>currentModel := v\<rparr>"
| "chat_step st (SetTemperature v) = st\<lparr>temperature := v\<rparr>"
| "chat_step st (SetSettingsOpen v) = st\<lparr>settingsOpen := v\<rparr>"
| "chat_step st (SendMessage now) =
     (case sendMessage_begin now st of None \<Rightarrow> st | Some (st', posted) \<Rightarrow> st')"
| "chat_step st (ChatResponse response now) = fst (sendMessage_settle response now st)"
| "chat_step st (ClearChat confirmed now) = fst (clearChat confirmed now st)"

definition sendMessage_during ::
  "string \<Rightarrow> chat_event list \<Rightarrow> http_error + chat_response \<Rightarrow> string \<Rightarrow> chat_state \<Rightarrow>
     chat_state \<times> effect list" where
  \<comment> \<open>one whole call of \<open>sendMessage\<close>: \<open>pending\<close> are the events handled while the request
      is awaited, and the response is appended to the transcript they leave; the effects
      are those of this call\<close>
  "sendMessage_during now pending response now' st =
     (case sendMessage_begin now st of
        None \<Rightarrow> (st, [])
      | Some (st1, posted) \<Rightarrow>
          (let (st2, effects) = sendMessage_settle response now' (foldl chat_step st1 pending)
           in (st2, posted @ effects)))"

definition sendMessage ::
  "string \<Rightarrow> http_error + chat_response \<Rightarrow> string \<Rightarrow> chat_state \<Rightarrow> chat_state \<times> effect list"
  where
  \<comment> \<open>the call during which no other event is handled\<close>
  "sendMessage now response now' st = sendMessage_during now [] response now' st"

fun keeps_transcript :: "chat_event \<Rightarrow> bool" where
  \<comment> \<open>events that cannot touch the transcript while a request is pending: all but a
      confirmed \<open>clearChat\<close> and the arrival of a response\<close>
  "keeps_transcript (ClearChat confirmed now) = (\<not> confirmed)"
| "keeps_transcript (ChatResponse response now) = False"
| "keeps_transcript ev = True"

definition chat_run :: "string \<Rightarrow> chat_event list \<Rightarrow> chat_state" where
  \<comment> \<open>the state after mounting at \<open>now\<close> and handling the events in order\<close>
  "chat_run now events = foldl chat_step (AIChat_mount now) events"

definition welcome_first :: "chat_state \<Rightarrow> bool" where
  "welcome_first st =
     (case messages st of
        [] \<Rightarrow> False
      | m # rest \<Rightarrow> role m = ''assistant'' \<and> content m = welcome_content)"

section \<open>Example data\<close>

definition example_task_state :: dm_state where
  "example_task_state =
     DocumentManager_initial\<lparr>selectedDocument := Some (hd example_documents),
       aiTaskInstructions := ''in French''\<rparr>"

definition example_error :: http_error where
  "example_error = \<lparr>detail = Some ''File too large'', message = ''Request failed''\<rparr>"

definition example_chat_state :: chat_state where
  "example_chat_state =
     (AIChat_mount ''2024-01-01T00:00:00.000Z'')\<lparr>inputMessage := ''  hello '',
        chat_selectedDocument := Some (hd example_documents)\<rparr>"

definition example_response :: chat_response where
  "example_response =
     \<lparr>message_content = ''Hi there'', message_timestamp = ''2024-01-01T00:00:02.000Z'',
      response_model_used = ''gpt-4o-mini'', response_processing_time = 3 / 2\<rparr>"

section \<open>Search and sort: proofs\<close>



lemma mset_insert_sorted: "mset (insert_sorted cmp x ys) = add_mset x (mset ys)"
  by (induction ys) auto

lemma mset_sort_js: "mset (sort_js cmp xs) = mset xs"
  unfolding sort_js_def by (induction xs) (auto simp: mset_insert_sorted)

lemma set_insert_sorted: "set (insert_sorted cmp x ys) = insert x (set ys)"
  by (induction ys) auto

lemma sorted_insert_sorted:
  assumes "consistent_comparator cmp" and "sorted_wrt (\<lambda>a b. cmp a b \<le> 0) ys"
  shows "sorted_wrt (\<lambda>a b. cmp a b \<le> 0) (insert_sorted cmp x ys)"
  using assms(2)
proof (induction ys)
  case Nil
  then show ?case by simp
next
  case (Cons y ys)
  from assms(1) have total: "\<And>a b. 0 < cmp a b \<Longrightarrow> cmp b a \<le> 0"
    and trans: "\<And>a b c. cmp a b \<le> 0 \<Longrightarrow> cmp b c \<le> 0 \<Longrightarrow> cmp a c \<le> 0"
    unfolding consistent_comparator_def by blast+
  show ?case
  proof (cases "cmp x y \<le> 0")
    case True
    from Cons.prems have y: "\<forall>z\<in>set ys. cmp y z \<le> 0" by simp
    have "\<forall>z\<in>set ys. cmp x z \<le> 0"
    proof
      fix z assume "z \<in> set ys"
      with y have "cmp y z \<le> 0" by blast
      with True show "cmp x z \<le> 0" by (rule trans)
    qed
    with True Cons.prems show ?thesis by simp
  next
    case False
    then have "cmp y x \<le> 0" using total by simp
    moreover from Cons.prems have "\<forall>z\<in>set ys. cmp y z \<le> 0" and "sorted_wrt (\<lambda>a b. cmp a b \<le> 0) ys"
      by simp_all
    ultimately show ?thesis using False Cons.IH by (simp add: set_insert_sorted)
  qed
qed

lemma sorted_sort_js:
  "consistent_comparator cmp \<Longrightarrow> sorted_wrt (\<lambda>a b. cmp a b \<le> 0) (sort_js cmp xs)"
  unfolding sort_js_def by (induction xs) (simp_all add: sorted_insert_sorted)

lemma compareCodeUnits_total: "0 < compareCodeUnits a b \<Longrightarrow> compareCodeUnits b a \<le> 0"
  by (induction a b rule: compareCodeUnits.induct) (simp_all split: if_splits)

lemma compareCodeUnits_Cons_le:
  "compareCodeUnits (x # xs) (y # ys) \<le> 0 \<longleftrightarrow> x < y \<or> (x = y \<and> compareCodeUnits xs ys \<le> 0)"
  by auto

lemma compareCodeUnits_trans:
  "compareCodeUnits a b \<le> 0 \<Longrightarrow> compareCodeUnits b c \<le> 0 \<Longrightarrow> compareCodeUnits a c \<le> 0"
proof (induction a b arbitrary: c rule: compareCodeUnits.induct)
  case 1
  then show ?case by simp
next
  case (2 y ys)
  then show ?case by (cases c) simp_all
next
  case (3 x xs)
  then show ?case by simp
next
  case (4 x xs y ys)
  show ?case
  proof (cases c)
    case Nil
    with "4.prems" show ?thesis by simp
  next
    case (Cons z zs)
    from "4.prems"(1) consider "x < y" | "x = y" "compareCodeUnits xs ys \<le> 0"
      unfolding compareCodeUnits_Cons_le by blast
    then show ?thesis
    proof cases
      case 1
      moreover from "4.prems"(2) have "y \<le> z"
        unfolding Cons compareCodeUnits_Cons_le by linarith
      ultimately have "x < z" by linarith
      then show ?thesis unfolding Cons compareCodeUnits_Cons_le by blast
    next
      case 2
      from "4.prems"(2) consider "y < z" | "y = z" "compareCodeUnits ys zs \<le> 0"
        unfolding Cons compareCodeUnits_Cons_le by blast
      then show ?thesis
      proof cases
        case 1
        with 2 show ?thesis unfolding Cons compareCodeUnits_Cons_le by simp
      next
        case 2
        with \<open>x = y\<close> \<open>compareCodeUnits xs ys \<le> 0\<close>
        have "compareCodeUnits xs zs \<le> 0"
          using "4.IH" [of zs] by simp
        with 2 \<open>x = y\<close> show ?thesis
          unfolding Cons compareCodeUnits_Cons_le by simp
      qed
    qed
  qed
qed

lemma consistent_compareCodeUnits: "consistent_comparator compareCodeUnits"
  unfolding consistent_comparator_def
  using compareCodeUnits_total compareCodeUnits_trans by blast

lemma consistent_compareDocuments:
  assumes "consistent_comparator localeCompare"
  shows "consistent_comparator (compareDocuments localeCompare key)"
proof -
  from assms have total: "\<And>a b. 0 < localeCompare a b \<Longrightarrow> localeCompare b a \<le> 0"
    and trans: "\<And>a b c. localeCompare a b \<le> 0 \<Longrightarrow> localeCompare b c \<le> 0 \<Longrightarrow> localeCompare a c \<le> 0"
    unfolding consistent_comparator_def by blast+
  show ?thesis
  proof (cases "key = ''filename''")
    case True
    then have eq: "compareDocuments localeCompare key = (\<lambda>a b. localeCompare (filename a) (filename b))"
      unfolding compareDocuments_def by (intro ext) simp
    show ?thesis
      unfolding consistent_comparator_def eq using total trans by blast
  next
    case False
    then show ?thesis
      unfolding consistent_comparator_def compareDocuments_def by auto
  qed
qed

lemma sorted_filteredDocuments:
  assumes "consistent_comparator localeCompare"
  shows "sorted_wrt (\<lambda>a b. compareDocuments localeCompare (sortBy st) a b \<le> 0)
           (filteredDocuments localeCompare toLowerCase st)"
  unfolding filteredDocuments_def
  by (rule sorted_sort_js) (rule consistent_compareDocuments [OF assms])

lemma sorted_wrt_hd_greatest:
  "sorted_wrt (\<lambda>a b. f b \<le> (f a :: int)) xs \<Longrightarrow> d \<in> set xs \<Longrightarrow> f d \<le> f (hd xs)"
  by (cases xs) auto


text \<open>
  C1. Whatever the fetched list, the search term and the sort selector, the displayed list
  \<open>filteredDocuments\<close> is a rearrangement of the filtered list, and it is sorted by the
  selected key: ascending under \<open>localeCompare\<close> of the filenames for \<open>filename\<close>,
  descending by size for \<open>size\<close>, and descending by upload date for \<open>upload_date\<close> and for
  any other selector value, so that no document is newer than the first one.
  \<open>localeCompare\<close> is the platform's collation, a consistent comparator; sizes are integers
  and upload dates are dates.
\<close>

theorem C1_sorted_by_selected_key:
  assumes "consistent_comparator localeCompare"
  shows
    "mset (filteredDocuments localeCompare toLowerCase st) =
       mset (filter (matchesSearch toLowerCase (searchTerm st)) (documents st)) \<and>
     (sortBy st = ''filename'' \<longrightarrow>
        sorted_wrt (\<lambda>a b. localeCompare (filename a) (filename b) \<le> 0)
          (filteredDocuments localeCompare toLowerCase st)) \<and>
     (sortBy st = ''size'' \<longrightarrow>
        sorted_wrt (\<lambda>a b. doc_size b \<le> doc_size a)
          (filteredDocuments localeCompare toLowerCase st)) \<and>
     (sortBy st \<noteq> ''filename'' \<and> sortBy st \<noteq> ''size'' \<longrightarrow>
        sorted_wrt (\<lambda>a b. upload_date b \<le> upload_date a)
          (filteredDocuments localeCompare toLowerCase st) \<and>
        (\<forall>d \<in> set (filteredDocuments localeCompare toLowerCase st).
           upload_date d \<le> upload_date (hd (filteredDocuments localeCompare toLowerCase st))))"
proof -
  let ?ds = "filteredDocuments localeCompare toLowerCase st"
  have s: "sorted_wrt (\<lambda>a b. compareDocuments localeCompare (sortBy st) a b \<le> 0) ?ds"
    by (rule sorted_filteredDocuments [OF assms])
  have p: "mset ?ds = mset (filter (matchesSearch toLowerCase (searchTerm st)) (documents st))"
    unfolding filteredDocuments_def by (rule mset_sort_js)
  have f: "sorted_wrt (\<lambda>a b. localeCompare (filename a) (filename b) \<le> 0) ?ds"
    if "sortBy st = ''filename''"
    using s that unfolding compareDocuments_def by simp
  have z: "sorted_wrt (\<lambda>a b. doc_size b \<le> doc_size a) ?ds" if "sortBy st = ''size''"
    using s that unfolding compareDocuments_def by simp
  have u: "sorted_wrt (\<lambda>a b. upload_date b \<le> upload_date a) ?ds"
    if "sortBy st \<noteq> ''filename''" "sortBy st \<noteq> ''size''"
    using s that unfolding compareDocuments_def by simp
  have h: "\<forall>d \<in> set ?ds. upload_date d \<le> upload_date (hd ?ds)"
    if "sortBy st \<noteq> ''filename''" "sortBy st \<noteq> ''size''"
    using sorted_wrt_hd_greatest [OF u [OF that]] by blast
  from p f z u h show ?thesis by blast
qed

theorem C1_sorted_by_selected_key_witness:
  "consistent_comparator compareCodeUnits \<and>
   map doc_id (filteredDocuments compareCodeUnits String_toLowerCase
     (DocumentManager_initial\<lparr>documents := example_documents, sortBy := ''size''\<rparr>)) =
     [''3'', ''1'', ''2''] \<and>
   sorted_wrt (\<lambda>a b. doc_size b \<le> doc_size a)
     (filteredDocuments compareCodeUnits String_toLowerCase
       (DocumentManager_initial\<lparr>documents := example_documents, sortBy := ''size''\<rparr>)) \<and>
   map doc_id (filteredDocuments compareCodeUnits String_toLowerCase
     (DocumentManager_initial\<lparr>documents := example_documents, sortBy := ''filename''\<rparr>)) =
     [''3'', ''1'', ''2''] \<and>
   sorted_wrt (\<lambda>a b. compareCodeUnits (filename a) (filename b) \<le> 0)
     (filteredDocuments compareCodeUnits String_toLowerCase
       (DocumentManager_initial\<lparr>documents := example_documents, sortBy := ''filename''\<rparr>)) \<and>
   map doc_id (filteredDocuments compareCodeUnits String_toLowerCase
     (DocumentManager_initial\<lparr>documents := example_documents\<rparr>)) = [''2'', ''3'', ''1''] \<and>
   sorted_wrt (\<lambda>a b. upload_date b \<le> upload_date a)
     (filteredDocuments compareCodeUnits String_toLowerCase
       (DocumentManager_initial\<lparr>documents := example_documents\<rparr>))"
proof -
  let ?size = "DocumentManager_initial\<lparr>documents := example_documents, sortBy := ''size''\<rparr>"
  let ?name = "DocumentManager_initial\<lparr>documents := example_documents, sortBy := ''filename''\<rparr>"
  let ?date = "DocumentManager_initial\<lparr>documents := example_documents\<rparr>"
  have c: "consistent_comparator compareCodeUnits"
    by (rule consistent_compareCodeUnits)
  have 1: "map doc_id (filteredDocuments compareCodeUnits String_toLowerCase ?size) =
      [''3'', ''1'', ''2'']"
    by code_simp
  have 2: "map doc_id (filteredDocuments compareCodeUnits String_toLowerCase ?name) =
      [''3'', ''1'', ''2'']"
    by code_simp
  have 3: "map doc_id (filteredDocuments compareCodeUnits String_toLowerCase ?date) =
      [''2'', ''3'', ''1'']"
    by code_simp
  have k: "sortBy ?size = ''size''" "sortBy ?name = ''filename''"
    "sortBy ?date \<noteq> ''filename''" "sortBy ?date \<noteq> ''size''"
    by (simp_all add: DocumentManager_initial_def)
  have 4: "sorted_wrt (\<lambda>a b. doc_size b \<le> doc_size a)
      (filteredDocuments compareCodeUnits String_toLowerCase ?size)"
    using C1_sorted_by_selected_key [OF c, of String_toLowerCase ?size] k(1) by blast
  have 5: "sorted_wrt (\<lambda>a b. compareCodeUnits (filename a) (filename b) \<le> 0)
     (filteredDocuments compareCodeUnits String_toLowerCase ?name)"
    using C1_sorted_by_selected_key [OF c, of String_toLowerCase ?name] k(2) by blast
  have 6: "sorted_wrt (\<lambda>a b. upload_date b \<le> upload_date a)
     (filteredDocuments compareCodeUnits String_toLowerCase ?date)"
    using C1_sorted_by_selected_key [OF c, of String_toLowerCase ?date] k(3,4) by blast
  from c 1 2 3 4 5 6 show ?thesis by blast
qed












section \<open>formatBytes: proofs\<close>










section \<open>Dashboard: proofs\<close>

lemma foldl_doc_size:
  "foldl (\<lambda>total doc. total + doc_size doc) a docs = a + sum_list (map doc_size docs)"
  by (induction docs arbitrary: a) simp_all

text \<open>
  C4. Mounting the dashboard sends one request, for the document list. From a successful
  response the four cards show: the number of documents; two placeholders computed from
  the random draws alone, the same whatever the response holds; and the formatted sum of
  the documents' sizes. The recent documents are the first five of the response (all of
  them when there are fewer), and their card is rendered only when there is one.
\<close>

theorem C4_dashboard_statistics:
  "filter is_request (snd (Dashboard_mount random1 random2 response)) = [HttpGet ''/documents''] \<and>
   statsCards (fst (Dashboard_mount random1 random2 (Inr docs))) =
     [(''Total Documents'', NumberValue (int (length docs))),
      (''AI Conversations'', NumberValue \<lfloor>random1 * 50\<rfloor>),
      (''AI Tasks Completed'', NumberValue \<lfloor>random2 * 100\<rfloor>),
      (''Storage Used'', StringValue (formatBytes (sum_list (map doc_size docs))))] \<and>
   storageUsed (dashboard_stats (fst (Dashboard_mount random1 random2 (Inr docs)))) =
     sum_list (map doc_size docs) \<and>
   totalChats (dashboard_stats (fst (Dashboard_mount random1 random2 (Inr docs)))) =
     totalChats (dashboard_stats (fst (Dashboard_mount random1 random2 (Inr docs')))) \<and>
   aiTasks (dashboard_stats (fst (Dashboard_mount random1 random2 (Inr docs)))) =
     aiTasks (dashboard_stats (fst (Dashboard_mount random1 random2 (Inr docs')))) \<and>
   recentDocuments (fst (Dashboard_mount random1 random2 (Inr docs))) = take 5 docs \<and>
   length (recentDocuments (fst (Dashboard_mount random1 random2 (Inr docs)))) \<le> 5 \<and>
   recentDocumentsCard (fst (Dashboard_mount random1 random2 (Inr docs))) =
     (if docs = [] then None else Some (take 5 docs))"
proof -
  have req: "filter is_request (snd (Dashboard_mount random1 random2 response)) =
      [HttpGet ''/documents'']"
    unfolding Dashboard_mount_def fetchDashboardData_def by (cases response) simp_all
  have st: "fst (Dashboard_mount random1 random2 (Inr ds)) =
      \<lparr>dashboard_stats =
         \<lparr>totalDocuments = int (length ds), totalChats = \<lfloor>random1 * 50\<rfloor>,
          aiTasks = \<lfloor>random2 * 100\<rfloor>, storageUsed = sum_list (map doc_size ds)\<rparr>,
       recentDocuments = take 5 ds, dashboard_loading = False\<rparr>" for ds
    unfolding Dashboard_mount_def fetchDashboardData_def Dashboard_initial_def
    by (simp add: foldl_doc_size)
  show ?thesis
    unfolding st req by (simp add: statsCards_def recentDocumentsCard_def)
qed

theorem C4_dashboard_statistics_witness:
  "statsCards (fst (Dashboard_mount (1 / 2) (1 / 3) (Inr example_documents))) =
     [(''Total Documents'', NumberValue 3),
      (''AI Conversations'', NumberValue 25),
      (''AI Tasks Completed'', NumberValue 33),
      (''Storage Used'', StringValue ''6.5 KB'')] \<and>
   map doc_id (recentDocuments (fst (Dashboard_mount (1 / 2) (1 / 3) (Inr example_documents)))) =
     [''1'', ''2'', ''3'']"
proof -
  have s: "sum_list (map doc_size example_documents) = 6656"
    by (simp add: example_documents_def)
  have f: "formatBytes 6656 = ''6.5 KB''" by code_simp
  have l: "length example_documents = 3" by (simp add: example_documents_def)
  have r: "\<lfloor>(1 / 2 :: real) * 50\<rfloor> = 25" "\<lfloor>(1 / 3 :: real) * 100\<rfloor> = 33" by simp_all
  have t: "map doc_id (take 5 example_documents) = [''1'', ''2'', ''3'']"
    by (simp add: example_documents_def)
  from C4_dashboard_statistics [of "1 / 2" "1 / 3" "Inr example_documents" example_documents example_documents]
  show ?thesis unfolding s f l r using t by simp
qed

section \<open>Theme: proofs\<close>

text \<open>
  C7, as the code has it. Toggling writes only the key \<open>pdflux-theme\<close>, with \<open>dark\<close> or
  \<open>light\<close> according to the new mode. On mount the app is in dark mode exactly when the
  stored value is \<open>dark\<close>, or the value is missing or the empty string and the system
  prefers dark. Hence mounting again after a toggle restores the toggled mode.
\<close>

theorem C7_theme_round_trip:
  "darkMode (fst (toggleDarkMode (st, storage))) = (\<not> darkMode st) \<and>
   snd (toggleDarkMode (st, storage)) =
     storage(''pdflux-theme'' \<mapsto>
       (if darkMode (fst (toggleDarkMode (st, storage))) then ''dark'' else ''light'')) \<and>
   (darkMode (App_mount prefersDark storage) \<longleftrightarrow>
      storage ''pdflux-theme'' = Some ''dark'' \<or>
      ((storage ''pdflux-theme'' = None \<or> storage ''pdflux-theme'' = Some []) \<and> prefersDark)) \<and>
   darkMode (App_mount prefersDark (snd (toggleDarkMode (st, storage)))) =
     darkMode (fst (toggleDarkMode (st, storage)))"
  by (simp add: toggleDarkMode_def App_mount_def App_initial_def falsy_def Let_def)

theorem C7_theme_round_trip_witness:
  "darkMode (fst (toggleDarkMode (App_initial, Map.empty))) \<and>
   snd (toggleDarkMode (App_initial, Map.empty)) ''pdflux-theme'' = Some ''dark'' \<and>
   darkMode (App_mount False (snd (toggleDarkMode (App_initial, Map.empty))))"
proof -
  let ?t = "toggleDarkMode (App_initial, Map.empty)"
  have d: "\<not> darkMode App_initial" by (simp add: App_initial_def)
  note t = C7_theme_round_trip [of App_initial Map.empty False]
  from t d have 1: "darkMode (fst ?t)" by blast
  from t have "snd ?t = Map.empty(''pdflux-theme'' \<mapsto> (if darkMode (fst ?t) then ''dark'' else ''light''))"
    by blast
  with 1 have 2: "snd ?t ''pdflux-theme'' = Some ''dark''" by simp
  from t 1 have 3: "darkMode (App_mount False (snd ?t))" by blast
  from 1 2 3 show ?thesis by blast
qed

theorem C7_empty_stored_value_counterexample:
  "darkMode (App_mount True (Map.empty(''pdflux-theme'' \<mapsto> []))) \<and>
   (Map.empty(''pdflux-theme'' \<mapsto> [])) ''pdflux-theme'' \<noteq> Some ''dark'' \<and>
   (Map.empty(''pdflux-theme'' \<mapsto> [])) ''pdflux-theme'' \<noteq> None"
  by (simp add: App_mount_def App_initial_def falsy_def)

section \<open>Upload: proofs\<close>

text \<open>
  C8. Dropping no accepted file does nothing. Otherwise only the first accepted file
  counts: if its type is not \<open>application/pdf\<close> the only effect is the error toast, and no
  request is made; if it is, the file is posted to the upload endpoint whatever its size.
  The dropzone is given no size limit either.
\<close>

theorem C8_upload_checks:
  "onDrop [] uploadResponse fetchResponse st = (st, []) \<and>
   onDrop (f # rest) uploadResponse fetchResponse st = onDrop [f] uploadResponse fetchResponse st \<and>
   (file_type f \<noteq> ''application/pdf'' \<longrightarrow>
      onDrop (f # rest) uploadResponse fetchResponse st =
        (st, [ToastError ''Only PDF files are supported'']) \<and>
      filter is_request (snd (onDrop (f # rest) uploadResponse fetchResponse st)) = []) \<and>
   hd (snd (onDrop (f\<lparr>file_type := ''application/pdf'', file_size := n\<rparr> # rest)
              uploadResponse fetchResponse st)) =
     HttpPostForm ''/documents/upload'' (f\<lparr>file_type := ''application/pdf'', file_size := n\<rparr>) \<and>
   maxSize dropzoneOptions = None"
proof -
  have 1: "onDrop [] uploadResponse fetchResponse st = (st, [])"
    by (simp add: onDrop_def)
  have 2: "onDrop (f # rest) uploadResponse fetchResponse st =
      onDrop [f] uploadResponse fetchResponse st"
    by (simp add: onDrop_def)
  have 3: "onDrop (f # rest) uploadResponse fetchResponse st =
      (st, [ToastError ''Only PDF files are supported''])"
    if "file_type f \<noteq> ''application/pdf''"
    using that by (simp add: onDrop_def)
  have 4: "hd (snd (onDrop (f\<lparr>file_type := ''application/pdf'', file_size := n\<rparr> # rest)
              uploadResponse fetchResponse st)) =
     HttpPostForm ''/documents/upload'' (f\<lparr>file_type := ''application/pdf'', file_size := n\<rparr>)"
    by (cases uploadResponse) (simp_all add: onDrop_def split: prod.splits)
  have 5: "maxSize dropzoneOptions = None"
    by (simp add: dropzoneOptions_def)
  from 1 2 3 4 5 show ?thesis by simp
qed

theorem C8_upload_checks_witness:
  "onDrop [\<lparr>file_name = ''notes.txt'', file_type = ''text/plain'', file_size = 10\<rparr>,
           \<lparr>file_name = ''a.pdf'', file_type = ''application/pdf'', file_size = 10\<rparr>]
     (Inr ()) (Inr []) DocumentManager_initial =
     (DocumentManager_initial, [ToastError ''Only PDF files are supported'']) \<and>
   hd (snd (onDrop [\<lparr>file_name = ''big.pdf'', file_type = ''application/pdf'',
                      file_size = 62914560\<rparr>]
        (Inr ()) (Inr []) DocumentManager_initial)) =
     HttpPostForm ''/documents/upload''
       \<lparr>file_name = ''big.pdf'', file_type = ''application/pdf'', file_size = 62914560\<rparr>"
proof -
  let ?txt = "\<lparr>file_name = ''notes.txt'', file_type = ''text/plain'', file_size = 10\<rparr>"
  let ?pdf = "\<lparr>file_name = ''a.pdf'', file_type = ''application/pdf'', file_size = 10\<rparr>"
  let ?big = "\<lparr>file_name = ''big.pdf'', file_type = ''application/pdf'', file_size = 62914560\<rparr>"
  have t: "file_type ?txt \<noteq> ''application/pdf''" by simp
  have u: "?big\<lparr>file_type := ''application/pdf'', file_size := 62914560\<rparr> = ?big" by simp
  from C8_upload_checks [where f = ?txt and rest = "[?pdf]" and uploadResponse = "Inr ()"
      and fetchResponse = "Inr []" and st = DocumentManager_initial] t
  have 1: "onDrop [?txt, ?pdf] (Inr ()) (Inr []) DocumentManager_initial =
      (DocumentManager_initial, [ToastError ''Only PDF files are supported''])"
    by blast
  from C8_upload_checks [where f = ?big and rest = "[]" and n = 62914560
      and uploadResponse = "Inr ()" and fetchResponse = "Inr []" and st = DocumentManager_initial]
  have 2: "hd (snd (onDrop [?big] (Inr ()) (Inr []) DocumentManager_initial)) =
      HttpPostForm ''/documents/upload'' ?big"
    unfolding u by blast
  from 1 2 show ?thesis by blast
qed

section \<open>AI tasks: proofs\<close>

text \<open>
  What \<open>performAiTask\<close> does when all goes well. The task type selector offers six distinct
  values. With no document selected nothing happens. With a document selected exactly one
  request is made, a POST to the AI tasks endpoint carrying the document's id, the task
  type, the provider, the model name and the additional instructions, which are left out
  when empty. On a successful response, \<open>window.open\<close> having returned a window, the page
  written to it holds the response's result and its processing time.
\<close>

lemma performAiTask_dispatch:
  "aiTaskTypeOptions =
     [''summarize'', ''extract_key_points'', ''rewrite'', ''analyze'', ''translate'',
      ''compress_suggestions''] \<and>
   length aiTaskTypeOptions = 6 \<and> distinct aiTaskTypeOptions \<and>
   aiTaskType DocumentManager_initial \<in> set aiTaskTypeOptions \<and>
   (selectedDocument st = None \<longrightarrow> performAiTask response popup st = (st, [])) \<and>
   (selectedDocument st = Some doc \<longrightarrow>
      filter is_request (snd (performAiTask response popup st)) =
        [HttpPostTask ''/ai/tasks''
           \<lparr>document_id = doc_id doc, task_type = aiTaskType st,
            additional_instructions =
              (if aiTaskInstructions st = [] then None else Some (aiTaskInstructions st)),
            model_provider = aiTaskProvider st, model_name = aiTaskModel st\<rparr>]) \<and>
   (selectedDocument st = Some doc \<longrightarrow>
      (\<exists>post toast page.
         snd (performAiTask (Inr data) True st) =
           [post, toast, WindowOpen ''_blank'', DocumentWrite page] \<and>
         is_request post \<and>
         page_result page = result data \<and>
         page_footer page = ''Processing time: '' @ toFixed2 (processing_time data) @ ''s''))"
proof -
  have opts: "length aiTaskTypeOptions = 6" "distinct aiTaskTypeOptions"
    "aiTaskType DocumentManager_initial \<in> set aiTaskTypeOptions"
    by (simp_all add: aiTaskTypeOptions_def DocumentManager_initial_def)
  have none: "performAiTask response popup st = (st, [])" if "selectedDocument st = None"
    using that by (simp add: performAiTask_def)
  have req: "filter is_request (snd (performAiTask response popup st)) =
        [HttpPostTask ''/ai/tasks''
           \<lparr>document_id = doc_id doc, task_type = aiTaskType st,
            additional_instructions =
              (if aiTaskInstructions st = [] then None else Some (aiTaskInstructions st)),
            model_provider = aiTaskProvider st, model_name = aiTaskModel st\<rparr>]"
    if "selectedDocument st = Some doc"
    using that by (cases response) (simp_all add: performAiTask_def aiTaskRequest_def Let_def)
  have ok: "\<exists>post toast page.
         snd (performAiTask (Inr data) True st) =
           [post, toast, WindowOpen ''_blank'', DocumentWrite page] \<and>
         is_request post \<and>
         page_result page = result data \<and>
         page_footer page = ''Processing time: '' @ toFixed2 (processing_time data) @ ''s''"
    if "selectedDocument st = Some doc"
    using that by (simp add: performAiTask_def resultPage_def Let_def)
  from opts none req ok show ?thesis
    by (simp add: aiTaskTypeOptions_def)
qed


lemma performAiTask_dispatch_example:
  "snd (performAiTask (Inr \<lparr>result = ''A summary.'', processing_time = 5 / 4\<rparr>) True
          example_task_state) =
     [HttpPostTask ''/ai/tasks''
        \<lparr>document_id = ''1'', task_type = ''summarize'',
         additional_instructions = Some ''in French'',
         model_provider = ''openai'', model_name = ''gpt-4o-mini''\<rparr>,
      ToastSuccess ''summarize completed successfully!'',
      WindowOpen ''_blank'',
      DocumentWrite
        \<lparr>page_title = ''AI Task Result'', page_heading = ''Summarize Result'',
         page_document = str ''Document: Report.pdf'', page_result = ''A summary.'',
         page_footer = ''Processing time: 1.25s''\<rparr>] \<and>
   performAiTask (Inl \<lparr>detail = None, message = ''Network Error''\<rparr>) True
     DocumentManager_initial = (DocumentManager_initial, []) \<and>
   filter is_request
     (snd (performAiTask (Inl \<lparr>detail = None, message = ''Network Error''\<rparr>) True
        example_task_state)) =
     [HttpPostTask ''/ai/tasks''
        \<lparr>document_id = ''1'', task_type = ''summarize'',
         additional_instructions = Some ''in French'',
         model_provider = ''openai'', model_name = ''gpt-4o-mini''\<rparr>]"
proof -
  let ?ok = "Inr \<lparr>result = ''A summary.'', processing_time = 5 / 4\<rparr>"
  let ?err = "Inl \<lparr>detail = None, message = ''Network Error''\<rparr>"
  have 1: "snd (performAiTask ?ok True example_task_state) =
     [HttpPostTask ''/ai/tasks''
        \<lparr>document_id = ''1'', task_type = ''summarize'',
         additional_instructions = Some ''in French'',
         model_provider = ''openai'', model_name = ''gpt-4o-mini''\<rparr>,
      ToastSuccess ''summarize completed successfully!'',
      WindowOpen ''_blank'',
      DocumentWrite
        \<lparr>page_title = ''AI Task Result'', page_heading = ''Summarize Result'',
         page_document = str ''Document: Report.pdf'', page_result = ''A summary.'',
         page_footer = ''Processing time: 1.25s''\<rparr>]"
    by code_simp
  have n: "selectedDocument DocumentManager_initial = None"
    by (simp add: DocumentManager_initial_def)
  have s: "selectedDocument example_task_state = Some (hd example_documents)"
    "doc_id (hd example_documents) = ''1''" "aiTaskType example_task_state = ''summarize''"
    "aiTaskInstructions example_task_state = ''in French''"
    "aiTaskProvider example_task_state = ''openai''"
    "aiTaskModel example_task_state = ''gpt-4o-mini''"
    by (simp_all add: example_task_state_def DocumentManager_initial_def example_documents_def)
  from performAiTask_dispatch [of DocumentManager_initial ?err True] n
  have 2: "performAiTask ?err True DocumentManager_initial = (DocumentManager_initial, [])"
    by blast
  from performAiTask_dispatch [of example_task_state ?err True "hd example_documents"] s(1)
  have "filter is_request (snd (performAiTask ?err True example_task_state)) =
        [HttpPostTask ''/ai/tasks''
           \<lparr>document_id = doc_id (hd example_documents),
            task_type = aiTaskType example_task_state,
            additional_instructions =
              (if aiTaskInstructions example_task_state = [] then None
               else Some (aiTaskInstructions example_task_state)),
            model_provider = aiTaskProvider example_task_state,
            model_name = aiTaskModel example_task_state\<rparr>]"
    by blast
  then have 3: "filter is_request (snd (performAiTask ?err True example_task_state)) =
     [HttpPostTask ''/ai/tasks''
        \<lparr>document_id = ''1'', task_type = ''summarize'',
         additional_instructions = Some ''in French'',
         model_provider = ''openai'', model_name = ''gpt-4o-mini''\<rparr>]"
    unfolding s by simp
  from 1 2 3 show ?thesis by blast
qed

text \<open>
  C6. The claim's last step, rendering the response in a newly opened tab, is not what the
  code does whenever the response is successful: \<open>window.open\<close> is called after the request
  was awaited and its result is used unchecked. When it returns \<open>null\<close>, with a document
  selected and a successful response, no page is written: after the request and the
  success toast, the error is logged and an "AI task failed" toast is shown, and the
  dialog stays open with its instructions.
\<close>

theorem C6_blocked_window_loses_result:
  "performAiTask (Inr data) False (st\<lparr>selectedDocument := Some doc\<rparr>) =
     (st\<lparr>selectedDocument := Some doc, aiTaskLoading := False\<rparr>,
      [HttpPostTask ''/ai/tasks''
         \<lparr>document_id = doc_id doc, task_type = aiTaskType st,
          additional_instructions =
            (if aiTaskInstructions st = [] then None else Some (aiTaskInstructions st)),
          model_provider = aiTaskProvider st, model_name = aiTaskModel st\<rparr>,
       ToastSuccess (aiTaskType st @ '' completed successfully!''),
       WindowOpen ''_blank'',
       ConsoleError ''AI task error:'',
       ToastError (''AI task failed: '' @ null_window_message)]) \<and>
   (\<forall>page. DocumentWrite page \<notin>
      set (snd (performAiTask (Inr data) False (st\<lparr>selectedDocument := Some doc\<rparr>))))"
  by (simp add: performAiTask_def aiTaskRequest_def Let_def)

theorem C6_blocked_window_loses_result_witness:
  "snd (performAiTask (Inr \<lparr>result = ''A summary.'', processing_time = 5 / 4\<rparr>) False
          example_task_state) =
     [HttpPostTask ''/ai/tasks''
        \<lparr>document_id = ''1'', task_type = ''summarize'',
         additional_instructions = Some ''in French'',
         model_provider = ''openai'', model_name = ''gpt-4o-mini''\<rparr>,
      ToastSuccess ''summarize completed successfully!'',
      WindowOpen ''_blank'',
      ConsoleError ''AI task error:'',
      ToastError ''AI task failed: Cannot read properties of null (reading 'document')'']"
proof -
  have e: "example_task_state\<lparr>selectedDocument := Some (hd example_documents)\<rparr> =
      example_task_state"
    by (simp add: example_task_state_def)
  have s: "doc_id (hd example_documents) = ''1''" "aiTaskType example_task_state = ''summarize''"
    "aiTaskInstructions example_task_state = ''in French''"
    "aiTaskProvider example_task_state = ''openai''"
    "aiTaskModel example_task_state = ''gpt-4o-mini''"
    by (simp_all add: example_task_state_def DocumentManager_initial_def example_documents_def)
  from C6_blocked_window_loses_result
    [where data = "\<lparr>result = ''A summary.'', processing_time = 5 / 4\<rparr>"
      and st = example_task_state and doc = "hd example_documents"]
  show ?thesis
    unfolding e s by (simp add: null_window_message_def)
qed

section \<open>Failed requests: proofs\<close>

lemma sendMessage_unfold:
  "sendMessage now response now' st =
     (case sendMessage_begin now st of
        None \<Rightarrow> (st, [])
      | Some (st1, posted) \<Rightarrow>
          (let (st2, effects) = sendMessage_settle response now' st1
           in (st2, posted @ effects)))"
  by (cases "sendMessage_begin now st") (simp_all add: sendMessage_def sendMessage_during_def)

text \<open>
  C3, as the code has it. When a request fails, the document list fetches (document
  manager, dashboard, chat), the upload, the download, the delete, the AI task and the chat
  request each show an error toast. The two AI-provider fetches do not: their failure is
  written to the console and shows no toast.
\<close>

theorem C3_failed_requests_toast:
  "filter is_error_toast (snd (fetchDocuments (Inl e) dm)) =
     [ToastError ''Failed to load documents''] \<and>
   filter is_error_toast
     (snd (onDrop (f\<lparr>file_type := ''application/pdf''\<rparr> # rest) (Inl e) fetchResponse dm)) =
     [ToastError (''Upload failed: '' @ error_text e)] \<and>
   filter is_error_toast
     (snd (onDrop (f\<lparr>file_type := ''application/pdf''\<rparr> # rest) (Inr ()) (Inl e) dm)) =
     [ToastError ''Failed to load documents''] \<and>
   filter is_error_toast (downloadDocument docId name (Inl e)) =
     [ToastError ''Download failed''] \<and>
   filter is_error_toast (snd (deleteDocument docId name True (Inl e) fetchResponse dm)) =
     [ToastError ''Failed to delete document''] \<and>
   filter is_error_toast (snd (deleteDocument docId name True (Inr ()) (Inl e) dm)) =
     [ToastError ''Failed to load documents''] \<and>
   filter is_error_toast
     (snd (performAiTask (Inl e) popup (dm\<lparr>selectedDocument := Some doc\<rparr>))) =
     [ToastError (''AI task failed: '' @ error_text e)] \<and>
   filter is_error_toast (snd (fetchDashboardData random1 random2 (Inl e) dash)) =
     [ToastError ''Failed to load dashboard data''] \<and>
   filter is_error_toast (snd (chat_fetchDocuments (Inl e) chat)) =
     [ToastError ''Failed to load documents''] \<and>
   filter is_error_toast (snd (sendMessage_settle (Inl e) now chat)) =
     [ToastError ''Chat request failed''] \<and>
   (sendMessage_begin now chat \<noteq> None \<longrightarrow>
      filter is_error_toast (snd (sendMessage now (Inl e) now' chat)) =
        [ToastError ''Chat request failed'']) \<and>
   snd (fetchAiProviders (Inl e) dm) =
     [HttpGet ''/ai/providers'', ConsoleError ''Failed to fetch AI providers:''] \<and>
   snd (chat_fetchAiProviders (Inl e) chat) =
     [HttpGet ''/ai/providers'', ConsoleError ''Failed to fetch AI providers:'']"
proof -
  have 1: "filter is_error_toast (snd (fetchDocuments (Inl e) s)) =
     [ToastError ''Failed to load documents'']" for s
    by (simp add: fetchDocuments_def)
  have 2: "filter is_error_toast
     (snd (onDrop (f\<lparr>file_type := ''application/pdf''\<rparr> # rest) (Inl e) fetchResponse dm)) =
     [ToastError (''Upload failed: '' @ error_text e)]"
    by (simp add: onDrop_def)
  have 3: "filter is_error_toast
     (snd (onDrop (f\<lparr>file_type := ''application/pdf''\<rparr> # rest) (Inr ()) (Inl e) dm)) =
     [ToastError ''Failed to load documents'']"
    by (simp add: onDrop_def fetchDocuments_def)
  have 4: "filter is_error_toast (downloadDocument docId name (Inl e)) =
     [ToastError ''Download failed'']"
    by (simp add: downloadDocument_def)
  have 5: "filter is_error_toast (snd (deleteDocument docId name True (Inl e) fetchResponse dm)) =
     [ToastError ''Failed to delete document'']"
    by (simp add: deleteDocument_def)
  have 6: "filter is_error_toast (snd (deleteDocument docId name True (Inr ()) (Inl e) dm)) =
     [ToastError ''Failed to load documents'']"
    by (simp add: deleteDocument_def fetchDocuments_def)
  have 7: "filter is_error_toast
     (snd (performAiTask (Inl e) popup (dm\<lparr>selectedDocument := Some doc\<rparr>))) =
     [ToastError (''AI task failed: '' @ error_text e)]"
    by (simp add: performAiTask_def Let_def)
  have 8: "filter is_error_toast (snd (fetchDashboardData random1 random2 (Inl e) dash)) =
     [ToastError ''Failed to load dashboard data'']"
    by (simp add: fetchDashboardData_def)
  have 9: "filter is_error_toast (snd (chat_fetchDocuments (Inl e) chat)) =
     [ToastError ''Failed to load documents'']"
    by (simp add: chat_fetchDocuments_def)
  have 10: "filter is_error_toast (snd (sendMessage_settle (Inl e) t s)) =
     [ToastError ''Chat request failed'']" for t s
    by (simp add: sendMessage_settle_def)
  have 11: "filter is_error_toast (snd (sendMessage now (Inl e) now' chat)) =
        [ToastError ''Chat request failed'']" if "sendMessage_begin now chat \<noteq> None"
  proof -
    from that obtain st1 posted where b: "sendMessage_begin now chat = Some (st1, posted)"
      by auto
    then have "posted = [HttpPostChat ''/ai/chat''
        (chatRequest (messages chat @ [userMessage now chat]) chat)]"
      by (auto simp: sendMessage_begin_def Let_def split: if_splits)
    with b 10 [of now' st1] show ?thesis
      by (simp add: sendMessage_unfold case_prod_beta)
  qed
  have 12: "snd (fetchAiProviders (Inl e) dm) =
     [HttpGet ''/ai/providers'', ConsoleError ''Failed to fetch AI providers:'']"
    by (simp add: fetchAiProviders_def)
  have 13: "snd (chat_fetchAiProviders (Inl e) chat) =
     [HttpGet ''/ai/providers'', ConsoleError ''Failed to fetch AI providers:'']"
    by (simp add: chat_fetchAiProviders_def)
  from 1 [of dm] 2 3 4 5 6 7 8 9 10 [of now chat] 11 12 13 show ?thesis by blast
qed

theorem C3_failed_requests_toast_witness:
  "sendMessage_begin ''2024-01-01T00:00:01.000Z'' example_chat_state \<noteq> None \<and>
   filter is_error_toast
     (snd (sendMessage ''2024-01-01T00:00:01.000Z'' (Inl example_error)
        ''2024-01-01T00:00:03.000Z'' example_chat_state)) =
     [ToastError ''Chat request failed''] \<and>
   filter is_error_toast
     (snd (onDrop [\<lparr>file_name = ''big.pdf'', file_type = ''application/pdf'',
                    file_size = 62914560\<rparr>]
        (Inl example_error) (Inr []) DocumentManager_initial)) =
     [ToastError ''Upload failed: File too large'']"
proof -
  let ?big = "\<lparr>file_name = ''big.pdf'', file_type = ''application/pdf'', file_size = 62914560\<rparr>"
  have b: "sendMessage_begin ''2024-01-01T00:00:01.000Z'' example_chat_state \<noteq> None"
    by code_simp
  note t = C3_failed_requests_toast [where e = example_error and chat = example_chat_state
      and now = "''2024-01-01T00:00:01.000Z''" and now' = "''2024-01-01T00:00:03.000Z''"
      and f = ?big and rest = "[]" and fetchResponse = "Inr []" and dm = DocumentManager_initial]
  from t b have 1: "filter is_error_toast
     (snd (sendMessage ''2024-01-01T00:00:01.000Z'' (Inl example_error)
        ''2024-01-01T00:00:03.000Z'' example_chat_state)) =
     [ToastError ''Chat request failed'']"
    by blast
  have u: "?big\<lparr>file_type := ''application/pdf''\<rparr> = ?big" by simp
  have e: "error_text example_error = ''File too large''"
    by (simp add: error_text_def example_error_def)
  from t have "filter is_error_toast
     (snd (onDrop (?big\<lparr>file_type := ''application/pdf''\<rparr> # []) (Inl example_error) (Inr [])
        DocumentManager_initial)) =
     [ToastError (''Upload failed: '' @ error_text example_error)]"
    by blast
  then have 2: "filter is_error_toast
     (snd (onDrop [?big] (Inl example_error) (Inr []) DocumentManager_initial)) =
     [ToastError ''Upload failed: File too large'']"
    unfolding u e by simp
  from b 1 2 show ?thesis by blast
qed

theorem C3_provider_fetch_counterexample:
  "filter is_request (snd (fetchAiProviders (Inl example_error) DocumentManager_initial)) =
     [HttpGet ''/ai/providers''] \<and>
   filter is_error_toast (snd (fetchAiProviders (Inl example_error) DocumentManager_initial)) = [] \<and>
   filter is_request (snd (chat_fetchAiProviders (Inl example_error) AIChat_initial)) =
     [HttpGet ''/ai/providers''] \<and>
   filter is_error_toast (snd (chat_fetchAiProviders (Inl example_error) AIChat_initial)) = []"
  by (simp add: fetchAiProviders_def chat_fetchAiProviders_def)

section \<open>Chat: proofs\<close>

lemma sendMessage_during_guard:
  "trim (inputMessage st) = [] \<or> isLoading st \<Longrightarrow>
     sendMessage_during now pending response now' st = (st, [])"
  by (auto simp: sendMessage_during_def sendMessage_begin_def)

lemma sendMessage_guard:
  "trim (inputMessage st) = [] \<or> isLoading st \<Longrightarrow> sendMessage now response now' st = (st, [])"
  unfolding sendMessage_def by (rule sendMessage_during_guard)

lemma sendMessage_begin_passes:
  assumes "trim (inputMessage st) \<noteq> []" and "\<not> isLoading st"
  shows "sendMessage_begin now st =
    Some (st\<lparr>messages := messages st @ [userMessage now st], inputMessage := [],
             isLoading := True\<rparr>,
          [HttpPostChat ''/ai/chat'' (chatRequest (messages st @ [userMessage now st]) st)])"
  using assms by (simp add: sendMessage_begin_def Let_def)

lemma sendMessage_during_passes:
  assumes "trim (inputMessage st) \<noteq> []" and "\<not> isLoading st"
  shows "sendMessage_during now pending response now' st =
    (fst (sendMessage_settle response now'
       (foldl chat_step
          (st\<lparr>messages := messages st @ [userMessage now st], inputMessage := [],
              isLoading := True\<rparr>) pending)),
     HttpPostChat ''/ai/chat'' (chatRequest (messages st @ [userMessage now st]) st) #
     snd (sendMessage_settle response now'
       (foldl chat_step
          (st\<lparr>messages := messages st @ [userMessage now st], inputMessage := [],
              isLoading := True\<rparr>) pending)))"
  unfolding sendMessage_during_def sendMessage_begin_passes [OF assms]
  by (simp add: case_prod_beta)

lemma sendMessage_settle_no_request:
  "filter is_request (snd (sendMessage_settle response now st)) = []"
  by (cases response) (simp_all add: sendMessage_settle_def)

lemma sendMessage_settle_reply:
  "\<exists>reply.
     messages (fst (sendMessage_settle response now st)) = messages st @ [reply] \<and>
     role reply = ''assistant'' \<and>
     (case response of
        Inr data \<Rightarrow>
          content reply = message_content data \<and>
          timestamp reply = message_timestamp data \<and> \<not> isError reply
      | Inl e \<Rightarrow> isError reply)"
  by (cases response)
    (simp_all add: sendMessage_settle_def assistantMessage_def errorMessage_def)

lemma keeps_transcript_step:
  assumes "isLoading st" and "keeps_transcript ev"
  shows "messages (chat_step st ev) = messages st \<and> isLoading (chat_step st ev)"
proof (cases ev)
  case (DocumentsFetched response)
  with assms show ?thesis by (cases response) (simp_all add: chat_fetchDocuments_def)
next
  case (ProvidersFetched response)
  with assms show ?thesis by (cases response) (simp_all add: chat_fetchAiProviders_def)
next
  case (SendMessage now)
  with assms show ?thesis by (simp add: sendMessage_begin_def)
next
  case (ClearChat confirmed now)
  with assms show ?thesis by (simp add: clearChat_def Let_def)
qed (use assms in simp_all)

lemma keeps_transcript_foldl:
  "isLoading st \<Longrightarrow> \<forall>ev \<in> set pending. keeps_transcript ev \<Longrightarrow>
     messages (foldl chat_step st pending) = messages st \<and> isLoading (foldl chat_step st pending)"
proof (induction pending arbitrary: st)
  case Nil
  then show ?case by simp
next
  case (Cons ev pending)
  from Cons.prems have "messages (chat_step st ev) = messages st" and l: "isLoading (chat_step st ev)"
    using keeps_transcript_step [of st ev] by simp_all
  moreover from Cons.prems have "\<forall>e \<in> set pending. keeps_transcript e" by simp
  ultimately show ?case using Cons.IH [OF l] by simp
qed

text \<open>
  C5, as the code has it. When the trimmed input is not empty and no request is in flight,
  \<open>sendMessage\<close> appends one user message holding the trimmed input and posts once, to the
  chat endpoint, the whole transcript including that message (role, content and timestamp
  of each) with the selected provider, model and temperature, and with the selected
  document's id exactly when a document is selected. When the response arrives, one
  assistant message is appended to the transcript as the events handled in the meantime
  have left it: the message the response carries, or on failure one flagged as an error.
  If none of those events is a confirmed \<open>clearChat\<close> or the arrival of another response,
  the transcript has grown by exactly these two messages. While a request is in flight, a
  call of \<open>sendMessage\<close> does nothing.
\<close>

theorem C5_send_message:
  assumes "trim (inputMessage st) \<noteq> []" and "\<not> isLoading st"
  shows
    "(\<exists>user reply.
        role user = ''user'' \<and> content user = trim (inputMessage st) \<and> \<not> isError user \<and>
        sendMessage_begin now st =
          Some (st\<lparr>messages := messages st @ [user], inputMessage := [], isLoading := True\<rparr>,
                [HttpPostChat ''/ai/chat''
                   \<lparr>req_messages =
                      map (\<lambda>m. \<lparr>req_role = role m, req_content = content m,
                                 req_timestamp = timestamp m\<rparr>) (messages st @ [user]),
                    req_model_provider = currentProvider st,
                    req_model_name = currentModel st,
                    req_temperature = temperature st,
                    req_document_id = map_option doc_id (chat_selectedDocument st)\<rparr>]) \<and>
        filter is_request (snd (sendMessage_during now pending response now' st)) =
          [HttpPostChat ''/ai/chat''
             \<lparr>req_messages =
                map (\<lambda>m. \<lparr>req_role = role m, req_content = content m,
                           req_timestamp = timestamp m\<rparr>) (messages st @ [user]),
              req_model_provider = currentProvider st,
              req_model_name = currentModel st,
              req_temperature = temperature st,
              req_document_id = map_option doc_id (chat_selectedDocument st)\<rparr>] \<and>
        messages (fst (sendMessage_during now pending response now' st)) =
          messages (foldl chat_step
            (st\<lparr>messages := messages st @ [user], inputMessage := [], isLoading := True\<rparr>)
            pending) @ [reply] \<and>
        role reply = ''assistant'' \<and>
        (case response of
           Inr data \<Rightarrow>
             content reply = message_content data \<and>
             timestamp reply = message_timestamp data \<and> \<not> isError reply
         | Inl e \<Rightarrow> isError reply) \<and>
        ((\<forall>ev \<in> set pending. keeps_transcript ev) \<longrightarrow>
           messages (fst (sendMessage_during now pending response now' st)) =
             messages st @ [user, reply] \<and>
           length (messages (fst (sendMessage_during now pending response now' st))) =
             length (messages st) + 2)) \<and>
     (isLoading busy \<longrightarrow> sendMessage_during now pending response now' busy = (busy, []))"
proof -
  let ?user = "userMessage now st"
  let ?st1 = "st\<lparr>messages := messages st @ [?user], inputMessage := [], isLoading := True\<rparr>"
  let ?late = "foldl chat_step ?st1 pending"
  let ?req = "\<lparr>req_messages =
         map (\<lambda>m. \<lparr>req_role = role m, req_content = content m,
                    req_timestamp = timestamp m\<rparr>) (messages st @ [?user]),
       req_model_provider = currentProvider st,
       req_model_name = currentModel st,
       req_temperature = temperature st,
       req_document_id = map_option doc_id (chat_selectedDocument st)\<rparr>"
  have req: "chatRequest (messages st @ [?user]) st = ?req"
    unfolding chatRequest_def
    by (cases "chat_selectedDocument st") (simp_all add: request_of_def [abs_def])
  have user: "role ?user = ''user''" "content ?user = trim (inputMessage st)" "\<not> isError ?user"
    by (simp_all add: userMessage_def)
  have start: "sendMessage_begin now st = Some (?st1, [HttpPostChat ''/ai/chat'' ?req])"
    using sendMessage_begin_passes [OF assms, of now] unfolding req .
  note during = sendMessage_during_passes [OF assms, of now pending response now']
  have posted: "filter is_request (snd (sendMessage_during now pending response now' st)) =
      [HttpPostChat ''/ai/chat'' ?req]"
    unfolding during req by (simp add: sendMessage_settle_no_request)
  obtain reply where reply:
    "messages (fst (sendMessage_settle response now' ?late)) = messages ?late @ [reply]"
    "role reply = ''assistant''"
    "case response of
       Inr data \<Rightarrow>
         content reply = message_content data \<and>
         timestamp reply = message_timestamp data \<and> \<not> isError reply
     | Inl e \<Rightarrow> isError reply"
    using sendMessage_settle_reply [of response now' ?late] by blast
  have late: "messages (fst (sendMessage_during now pending response now' st)) =
      messages ?late @ [reply]"
    unfolding during using reply(1) by simp
  have quiet: "messages (fst (sendMessage_during now pending response now' st)) =
        messages st @ [?user, reply] \<and>
      length (messages (fst (sendMessage_during now pending response now' st))) =
        length (messages st) + 2"
    if "\<forall>ev \<in> set pending. keeps_transcript ev"
  proof -
    have "isLoading ?st1" by simp
    from keeps_transcript_foldl [OF this that] have "messages ?late = messages st @ [?user]"
      by simp
    with late show ?thesis by simp
  qed
  have busy: "sendMessage_during now pending response now' busy = (busy, [])" if "isLoading busy"
    using that by (simp add: sendMessage_during_guard)
  from user start posted late reply(2,3) quiet busy show ?thesis by blast
qed

theorem C5_send_message_counterexample:
  "trim (inputMessage (example_chat_state\<lparr>isLoading := True\<rparr>)) = ''hello'' \<and>
   sendMessage_during ''2024-01-01T00:00:01.000Z'' [] (Inr example_response)
     ''2024-01-01T00:00:03.000Z'' (example_chat_state\<lparr>isLoading := True\<rparr>) =
     (example_chat_state\<lparr>isLoading := True\<rparr>, []) \<and>
   trim (inputMessage example_chat_state) = ''hello'' \<and> \<not> isLoading example_chat_state \<and>
   length (messages example_chat_state) = 1 \<and>
   map content (messages (fst (sendMessage_during ''2024-01-01T00:00:01.000Z''
     [ClearChat True ''2024-01-01T00:00:02.000Z''] (Inr example_response)
     ''2024-01-01T00:00:03.000Z'' example_chat_state))) = [welcome_content, ''Hi there'']"
proof -
  have 1: "trim (inputMessage (example_chat_state\<lparr>isLoading := True\<rparr>)) = ''hello''"
    by code_simp
  have 2: "sendMessage_during ''2024-01-01T00:00:01.000Z'' [] (Inr example_response)
     ''2024-01-01T00:00:03.000Z'' (example_chat_state\<lparr>isLoading := True\<rparr>) =
     (example_chat_state\<lparr>isLoading := True\<rparr>, [])"
    by (rule sendMessage_during_guard) simp
  have 3: "trim (inputMessage example_chat_state) = ''hello''" by code_simp
  have 4: "\<not> isLoading example_chat_state"
    by (simp add: example_chat_state_def AIChat_mount_def initializeChat_def AIChat_initial_def)
  have 5: "length (messages example_chat_state) = 1"
    by (simp add: example_chat_state_def AIChat_mount_def initializeChat_def)
  have 6: "map content (messages (fst (sendMessage_during ''2024-01-01T00:00:01.000Z''
     [ClearChat True ''2024-01-01T00:00:02.000Z''] (Inr example_response)
     ''2024-01-01T00:00:03.000Z'' example_chat_state))) = [welcome_content, ''Hi there'']"
    by code_simp
  from 1 2 3 4 5 6 show ?thesis by blast
qed

theorem C5_send_message_witness:
  "trim (inputMessage example_chat_state) = ''hello'' \<and> \<not> isLoading example_chat_state \<and>
   length (messages (fst (sendMessage_during ''2024-01-01T00:00:01.000Z''
     [SetInputMessage ''more'', SendMessage ''2024-01-01T00:00:02.000Z'',
      ClearChat False ''2024-01-01T00:00:02.500Z'']
     (Inr example_response) ''2024-01-01T00:00:03.000Z'' example_chat_state))) = 3 \<and>
   map content (messages (fst (sendMessage_during ''2024-01-01T00:00:01.000Z''
     [SetInputMessage ''more'', SendMessage ''2024-01-01T00:00:02.000Z'',
      ClearChat False ''2024-01-01T00:00:02.500Z'']
     (Inr example_response) ''2024-01-01T00:00:03.000Z'' example_chat_state))) =
     [welcome_content, ''hello'', ''Hi there''] \<and>
   filter is_request (snd (sendMessage_during ''2024-01-01T00:00:01.000Z''
     [SetInputMessage ''more'', SendMessage ''2024-01-01T00:00:02.000Z'',
      ClearChat False ''2024-01-01T00:00:02.500Z'']
     (Inr example_response) ''2024-01-01T00:00:03.000Z'' example_chat_state)) =
     [HttpPostChat ''/ai/chat''
        \<lparr>req_messages =
           [\<lparr>req_role = ''assistant'', req_content = welcome_content,
             req_timestamp = ''2024-01-01T00:00:00.000Z''\<rparr>,
            \<lparr>req_role = ''user'', req_content = ''hello'',
             req_timestamp = ''2024-01-01T00:00:01.000Z''\<rparr>],
         req_model_provider = ''openai'', req_model_name = ''gpt-4o-mini'',
         req_temperature = 7 / 10, req_document_id = Some ''1''\<rparr>] \<and>
   sendMessage_during ''2024-01-01T00:00:02.000Z'' [] (Inr example_response)
     ''2024-01-01T00:00:04.000Z'' (example_chat_state\<lparr>isLoading := True\<rparr>) =
     (example_chat_state\<lparr>isLoading := True\<rparr>, [])"
proof -
  let ?pending = "[SetInputMessage ''more'', SendMessage ''2024-01-01T00:00:02.000Z'',
      ClearChat False ''2024-01-01T00:00:02.500Z'']"
  let ?s = "sendMessage_during ''2024-01-01T00:00:01.000Z'' ?pending
     (Inr example_response) ''2024-01-01T00:00:03.000Z'' example_chat_state"
  have t: "trim (inputMessage example_chat_state) = ''hello''" by code_simp
  then have t': "trim (inputMessage example_chat_state) \<noteq> []" by simp
  have l: "\<not> isLoading example_chat_state"
    by (simp add: example_chat_state_def AIChat_mount_def initializeChat_def AIChat_initial_def)
  have n: "length (messages example_chat_state) = 1"
    by (simp add: example_chat_state_def AIChat_mount_def initializeChat_def)
  have q: "\<forall>ev \<in> set ?pending. keeps_transcript ev" by simp
  from C5_send_message [OF t' l, where now = "''2024-01-01T00:00:01.000Z''"
      and pending = ?pending and response = "Inr example_response"
      and now' = "''2024-01-01T00:00:03.000Z''"] q
  have "length (messages (fst ?s)) = length (messages example_chat_state) + 2" by blast
  with n have 1: "length (messages (fst ?s)) = 3" by simp
  have 2: "map content (messages (fst ?s)) = [welcome_content, ''hello'', ''Hi there'']"
    by code_simp
  have 3: "filter is_request (snd ?s) =
     [HttpPostChat ''/ai/chat''
        \<lparr>req_messages =
           [\<lparr>req_role = ''assistant'', req_content = welcome_content,
             req_timestamp = ''2024-01-01T00:00:00.000Z''\<rparr>,
            \<lparr>req_role = ''user'', req_content = ''hello'',
             req_timestamp = ''2024-01-01T00:00:01.000Z''\<rparr>],
         req_model_provider = ''openai'', req_model_name = ''gpt-4o-mini'',
         req_temperature = 7 / 10, req_document_id = Some ''1''\<rparr>]"
    by code_simp
  have b: "isLoading (example_chat_state\<lparr>isLoading := True\<rparr>)" by simp
  from C5_send_message [OF t' l, where busy = "example_chat_state\<lparr>isLoading := True\<rparr>"
      and now = "''2024-01-01T00:00:02.000Z''" and pending = "[]"
      and response = "Inr example_response" and now' = "''2024-01-01T00:00:04.000Z''"] b
  have 4: "sendMessage_during ''2024-01-01T00:00:02.000Z'' [] (Inr example_response)
     ''2024-01-01T00:00:04.000Z'' (example_chat_state\<lparr>isLoading := True\<rparr>) =
     (example_chat_state\<lparr>isLoading := True\<rparr>, [])"
    by blast
  from t l 1 2 3 4 show ?thesis by blast
qed

lemma welcome_first_initializeChat: "welcome_first (initializeChat now st)"
  by (simp add: welcome_first_def initializeChat_def welcomeMessage_def)

lemma welcome_first_append:
  "welcome_first st \<Longrightarrow> messages st' = messages st @ new \<Longrightarrow> welcome_first st'"
  by (cases "messages st") (simp_all add: welcome_first_def)

lemma sendMessage_begin_appends:
  "sendMessage_begin now st = Some (st', posted) \<Longrightarrow>
     messages st' = messages st @ [userMessage now st]"
  by (auto simp: sendMessage_begin_def Let_def split: if_splits)

lemma sendMessage_settle_appends:
  "\<exists>reply. messages (fst (sendMessage_settle response now st)) = messages st @ [reply]"
  by (cases response) (simp_all add: sendMessage_settle_def)

lemma sendMessage_appends:
  "\<exists>new. messages (fst (sendMessage now response now' st)) = messages st @ new"
proof (cases "sendMessage_begin now st")
  case None
  then show ?thesis by (simp add: sendMessage_unfold)
next
  case (Some p)
  obtain st1 posted where p: "p = (st1, posted)" by (cases p)
  from Some p have 1: "messages st1 = messages st @ [userMessage now st]"
    by (simp add: sendMessage_begin_appends)
  obtain reply where 2: "messages (fst (sendMessage_settle response now' st1)) = messages st1 @ [reply]"
    using sendMessage_settle_appends by blast
  from Some p have "fst (sendMessage now response now' st) = fst (sendMessage_settle response now' st1)"
    by (simp add: sendMessage_unfold case_prod_beta)
  with 1 2 show ?thesis by simp
qed

lemma clearChat_short:
  "length (messages st) \<le> 1 \<Longrightarrow> clearChat confirmed now st = (st, [])"
  by (simp add: clearChat_def)

lemma clearChat_long:
  assumes "1 < length (messages st)"
  shows "fst (clearChat True now st) =
           st\<lparr>messages := [welcomeMessage now], chat_selectedDocument := None\<rparr>"
    and "fst (clearChat False now st) = st"
  using assms by (simp_all add: clearChat_def initializeChat_def Let_def)

lemma welcome_first_clearChat:
  "welcome_first st \<Longrightarrow> welcome_first (fst (clearChat confirmed now st))"
  by (cases confirmed)
    (simp_all add: clearChat_def Let_def welcome_first_def initializeChat_def welcomeMessage_def)

lemma welcome_first_step:
  assumes "welcome_first st"
  shows "welcome_first (chat_step st ev)"
proof (cases ev)
  case (SendMessage now)
  show ?thesis
  proof (cases "sendMessage_begin now st")
    case None
    with SendMessage assms show ?thesis by simp
  next
    case (Some p)
    obtain st' posted where p: "p = (st', posted)" by (cases p)
    with Some have "messages st' = messages st @ [userMessage now st]"
      by (simp add: sendMessage_begin_appends)
    with assms have "welcome_first st'" by (rule welcome_first_append)
    with SendMessage Some p show ?thesis by simp
  qed
next
  case (ChatResponse response now)
  obtain reply where "messages (fst (sendMessage_settle response now st)) = messages st @ [reply]"
    using sendMessage_settle_appends by blast
  with assms have "welcome_first (fst (sendMessage_settle response now st))"
    by (rule welcome_first_append)
  with ChatResponse show ?thesis by simp
next
  case (ClearChat confirmed now)
  with assms show ?thesis by (simp add: welcome_first_clearChat)
next
  case (DocumentsFetched response)
  with assms show ?thesis
    by (cases response) (simp_all add: chat_fetchDocuments_def welcome_first_def)
next
  case (ProvidersFetched response)
  with assms show ?thesis
    by (cases response) (simp_all add: chat_fetchAiProviders_def welcome_first_def)
qed (use assms in \<open>simp_all add: welcome_first_def\<close>)

lemma welcome_first_foldl:
  "welcome_first st \<Longrightarrow> welcome_first (foldl chat_step st events)"
  by (induction events arbitrary: st) (simp_all add: welcome_first_step)

lemma welcome_first_run: "welcome_first (chat_run now events)"
  unfolding chat_run_def AIChat_mount_def
  by (rule welcome_first_foldl) (rule welcome_first_initializeChat)

text \<open>
  C10. \<open>initializeChat\<close> sets the transcript to the one welcome message. \<open>sendMessage\<close>
  changes nothing when the trimmed input is empty or a request is in flight, and otherwise
  only appends to the transcript. \<open>clearChat\<close> does nothing on a transcript of at most one
  message; on a longer one it resets, when confirmed, the transcript to the one welcome
  message and the selected document to none, and changes nothing when not confirmed. So
  after mounting, whatever events follow and in whatever order (responses arriving late
  included), the transcript is not empty and starts with the assistant's welcome message.
\<close>

theorem C10_transcript_invariant:
  "messages (initializeChat now st) = [welcomeMessage now] \<and>
   (trim (inputMessage st) = [] \<or> isLoading st \<longrightarrow>
      sendMessage now response now' st = (st, [])) \<and>
   (\<exists>new. messages (fst (sendMessage now response now' st)) = messages st @ new) \<and>
   (length (messages st) \<le> 1 \<longrightarrow> clearChat confirmed now st = (st, [])) \<and>
   (1 < length (messages st) \<longrightarrow>
      fst (clearChat True now st) =
        st\<lparr>messages := [welcomeMessage now], chat_selectedDocument := None\<rparr> \<and>
      fst (clearChat False now st) = st) \<and>
   messages (chat_run now events) \<noteq> [] \<and>
   role (hd (messages (chat_run now events))) = ''assistant'' \<and>
   content (hd (messages (chat_run now events))) = welcome_content"
proof -
  have i: "messages (initializeChat now st) = [welcomeMessage now]"
    by (simp add: initializeChat_def)
  have w: "messages (chat_run now events) \<noteq> [] \<and>
      role (hd (messages (chat_run now events))) = ''assistant'' \<and>
      content (hd (messages (chat_run now events))) = welcome_content"
    using welcome_first_run [of now events]
    by (cases "messages (chat_run now events)") (simp_all add: welcome_first_def)
  from i w sendMessage_guard [of st now response now'] sendMessage_appends [of now response now' st]
    clearChat_short [of st confirmed now] clearChat_long [of st now]
  show ?thesis by blast
qed

theorem C10_transcript_invariant_witness:
  "map content (messages (chat_run ''2024-01-01T00:00:00.000Z''
      [SetInputMessage ''hi'', SendMessage ''2024-01-01T00:00:01.000Z'',
       ClearChat True ''2024-01-01T00:00:02.000Z'',
       ChatResponse (Inr example_response) ''2024-01-01T00:00:03.000Z''])) =
     [welcome_content, ''Hi there''] \<and>
   role (hd (messages (chat_run ''2024-01-01T00:00:00.000Z''
      [SetInputMessage ''hi'', SendMessage ''2024-01-01T00:00:01.000Z'',
       ClearChat True ''2024-01-01T00:00:02.000Z'',
       ChatResponse (Inr example_response) ''2024-01-01T00:00:03.000Z'']))) = ''assistant'' \<and>
   clearChat True ''2024-01-01T00:00:02.000Z'' example_chat_state = (example_chat_state, []) \<and>
   sendMessage ''2024-01-01T00:00:01.000Z'' (Inr example_response) ''2024-01-01T00:00:03.000Z''
     (example_chat_state\<lparr>inputMessage := ''   ''\<rparr>) =
     (example_chat_state\<lparr>inputMessage := ''   ''\<rparr>, []) \<and>
   messages (fst (clearChat True ''2024-01-01T00:00:04.000Z''
     (fst (sendMessage ''2024-01-01T00:00:01.000Z'' (Inr example_response)
        ''2024-01-01T00:00:03.000Z'' example_chat_state)))) =
     [welcomeMessage ''2024-01-01T00:00:04.000Z'']"
proof -
  let ?events = "[SetInputMessage ''hi'', SendMessage ''2024-01-01T00:00:01.000Z'',
       ClearChat True ''2024-01-01T00:00:02.000Z'',
       ChatResponse (Inr example_response) ''2024-01-01T00:00:03.000Z'']"
  let ?sent = "fst (sendMessage ''2024-01-01T00:00:01.000Z'' (Inr example_response)
        ''2024-01-01T00:00:03.000Z'' example_chat_state)"
  have 1: "map content (messages (chat_run ''2024-01-01T00:00:00.000Z'' ?events)) =
     [welcome_content, ''Hi there'']"
    by code_simp
  from C10_transcript_invariant [where now = "''2024-01-01T00:00:00.000Z''" and events = ?events]
  have 2: "role (hd (messages (chat_run ''2024-01-01T00:00:00.000Z'' ?events))) = ''assistant''"
    by blast
  have n: "length (messages example_chat_state) \<le> 1"
    by (simp add: example_chat_state_def AIChat_mount_def initializeChat_def)
  from C10_transcript_invariant [where now = "''2024-01-01T00:00:02.000Z''"
      and st = example_chat_state and confirmed = True] n
  have 3: "clearChat True ''2024-01-01T00:00:02.000Z'' example_chat_state =
      (example_chat_state, [])"
    by blast
  have t: "trim (inputMessage (example_chat_state\<lparr>inputMessage := ''   ''\<rparr>)) = []"
    by code_simp
  from C10_transcript_invariant [where now = "''2024-01-01T00:00:01.000Z''"
      and st = "example_chat_state\<lparr>inputMessage := ''   ''\<rparr>"
      and response = "Inr example_response" and now' = "''2024-01-01T00:00:03.000Z''"] t
  have 4: "sendMessage ''2024-01-01T00:00:01.000Z'' (Inr example_response)
      ''2024-01-01T00:00:03.000Z'' (example_chat_state\<lparr>inputMessage := ''   ''\<rparr>) =
     (example_chat_state\<lparr>inputMessage := ''   ''\<rparr>, [])"
    by blast
  have m: "length (messages ?sent) = 3" by code_simp
  then have "1 < length (messages ?sent)" by simp
  with C10_transcript_invariant [where now = "''2024-01-01T00:00:04.000Z''" and st = ?sent]
  have "fst (clearChat True ''2024-01-01T00:00:04.000Z'' ?sent) =
      ?sent\<lparr>messages := [welcomeMessage ''2024-01-01T00:00:04.000Z''],
        chat_selectedDocument := None\<rparr>"
    by blast
  then have 5: "messages (fst (clearChat True ''2024-01-01T00:00:04.000Z'' ?sent)) =
     [welcomeMessage ''2024-01-01T00:00:04.000Z'']"
    by simp
  from 1 2 3 4 5 show ?thesis by blast
qed

end
